theory Spec2Isabelle
  imports Main "HOL-Library.Multiset"
begin

section \<open>Data model\<close>

text \<open>
  The development embeds the page-render / merge pipeline of the repository: the job
  creation route (\<^verbatim>\<open>POST /assign-job\<close>), the render and merge workers of
  \<^verbatim>\<open>workers/pdfWorker.js\<close> and of its two sibling worker files, the self-heal pass of
  \<^verbatim>\<open>GET /assigned\<close> and the \<^verbatim>\<open>/secure-render\<close> and \<^verbatim>\<open>/secure-print\<close> routes.

  JavaScript values that arrive in a request body are values of \<open>jsval\<close>; numbers are
  integers here (the pipeline only counts pages and prints).
\<close>

datatype jsval =
    JUndefined
  | JNull
  | JBool bool
  | JNum int
  | JStr string
  | JArr "jsval list"
  | JObj "(string \<times> jsval) list"

text \<open>
  A layout item as the workers see it: its \<open>src\<close> (\<open>None\<close> is JavaScript's
  \<^verbatim>\<open>undefined\<close>) and its other properties. A layout page is \<^verbatim>\<open>{ items: [...] }\<close>.
\<close>

record item =
  src :: "string option"
  rest :: "(string \<times> jsval) list"

record page =
  items :: "item list"

text \<open>
  An object of the S3 bucket, seen through the two views the program takes of its body:
  \<^verbatim>\<open>buffer.toString('base64')\<close> and \<^verbatim>\<open>PDFDocument.load(bytes)\<close> (the pages of the
  document, \<open>None\<close> when the bytes do not parse). A buffer in memory is the same thing
  without a content type.
\<close>

record buffer =
  base64 :: string
  pdfPages :: "page list option"

record s3object = buffer +
  contentType :: "string option"

text \<open>\<^verbatim>\<open>{ key, pageIndex }\<close>, one element of a job's \<^verbatim>\<open>pageArtifacts\<close>.\<close>

record artifact =
  key :: string
  pageIndex :: nat

datatype failure =
    UserNotFound
  | BucketNotConfigured
  | S3GetFailed string
  | PdfLoadFailed
  | TypeError

text \<open>
  The collections of the database. A \<open>documentJob\<close> is a record of \<^verbatim>\<open>DocumentJobs\<close>
  (\<open>j_id\<close> is its \<^verbatim>\<open>_id\<close>; \<open>pageArtifacts\<close> starts empty), a \<open>documentAccess\<close> an
  access grant of \<^verbatim>\<open>DocumentAccess\<close>, a \<open>document\<close> a record of \<^verbatim>\<open>Document\<close>. Fields
  that a route or worker may leave unset are options.
\<close>

record documentJob =
  j_id :: string
  email :: string
  assignedQuota :: int
  status :: string
  stage :: string
  totalPages :: int
  completedPages :: int
  pageArtifacts :: "artifact list"
  outputDocumentId :: "string option"
  userId :: "string option"
  createdBy :: string

record user =
  u_id :: string
  u_email :: string

record document =
  d_id :: string
  title :: string
  fileKey :: string
  fileUrl :: string
  totalPrints :: "int option"
  d_createdBy :: string
  mimeType :: "string option"
  documentType :: string

record documentAccess =
  a_id :: string
  a_userId :: "string option"
  a_documentId :: string
  a_assignedQuota :: int
  usedPrints :: int
  sessionToken :: "string option"

text \<open>The payloads (\<^verbatim>\<open>job.data\<close>) of the two queues.\<close>

record renderTask =
  t_email :: string
  t_assignedQuota :: int
  t_pageLayout :: page
  t_pageIndex :: nat
  t_adminUserId :: string
  t_jobId :: string

record mergeTask =
  m_jobId :: string
  m_email :: string
  m_assignedQuota :: int
  m_adminUserId :: string

text \<open>
  The state the handlers share: the four collections, the S3 bucket, the two queues (each
  entry with the custom id it was added under, if any), the environment
  (\<^verbatim>\<open>AWS_S3_BUCKET\<close>, and the base of the public URL of an object), and a counter
  \<open>fresh\<close> that stands for the sources of new identifiers: \<^verbatim>\<open>ObjectId\<close>s,
  \<^verbatim>\<open>crypto.randomUUID()\<close> and \<^verbatim>\<open>crypto.randomBytes(32)\<close>.
\<close>

record sys =
  jobs :: "documentJob list"
  users :: "user list"
  documents :: "document list"
  accesses :: "documentAccess list"
  bucket :: "string \<rightharpoonup> s3object"
  outputPdfQueue :: "(string option \<times> renderTask) list"
  mergePdfQueue :: "(string option \<times> mergeTask) list"
  fresh :: nat
  AWS_S3_BUCKET :: "string option"
  urlBase :: string

text \<open>
  What a worker's handler did with a task: it returned (the queue marks the task
  completed) or it threw (the queue marks it failed and may deliver it again).
\<close>

datatype outcome = Returned | Threw failure

text \<open>The JSON answer of a route: a status with a message, or one of the success bodies.\<close>

datatype response =
    Message nat string
  | JobCreated string
  | PrintUrl string int int
  | Sent string string

section \<open>Strings\<close>

definition lowerChar :: "char \<Rightarrow> char" where
  "lowerChar c =
     (let n = (of_char c :: nat) in if 65 \<le> n \<and> n \<le> 90 then char_of (n + 32) else c)"

definition toLowerCase :: "string \<Rightarrow> string" where
  "toLowerCase s = map lowerChar s"

text \<open>The decimal text of an index, as a template literal prints it.\<close>

definition digitChar :: "nat \<Rightarrow> char" where
  "digitChar d = ''0123456789'' ! d"

fun decimal :: "nat \<Rightarrow> string" where
  "decimal n =
     (if n < 10 then [digitChar n] else decimal (n div 10) @ [digitChar (n mod 10)])"

declare decimal.simps [simp del]

definition startsWith :: "string \<Rightarrow> string \<Rightarrow> bool" where
  "startsWith s p = (take (length p) s = p)"

section \<open>Collections, identifiers, queues and the bucket\<close>

definition findById :: "documentJob list \<Rightarrow> string \<Rightarrow> documentJob option" where
  "findById js i = find (\<lambda>j. j_id j = i) js"

text \<open>
  A write to the job with the given \<^verbatim>\<open>_id\<close>: \<^verbatim>\<open>save()\<close> of the modified paths, or
  \<^verbatim>\<open>findByIdAndUpdate\<close>.
\<close>

definition updateJob :: "string \<Rightarrow> (documentJob \<Rightarrow> documentJob) \<Rightarrow> sys \<Rightarrow> sys" where
  "updateJob i f s = s\<lparr>jobs := map (\<lambda>j. if j_id j = i then f j else j) (jobs s)\<rparr>"

definition findUser :: "user list \<Rightarrow> string \<Rightarrow> user option" where
  "findUser us e = find (\<lambda>u. u_email u = e) us"

definition newId :: "sys \<Rightarrow> string \<times> sys" where
  "newId s = (decimal (fresh s), s\<lparr>fresh := Suc (fresh s)\<rparr>)"

text \<open>
  Modelled from the spec: the queue's \<^verbatim>\<open>add\<close> (BullMQ's \<^verbatim>\<open>Queue.add(name, data, opts)\<close>,
  a library outside the repository), "supporting per-task unique keys for duplicate
  suppression": an add under a custom id that the queue already holds adds nothing, an
  add with no custom id always adds a task.
\<close>

definition queueAdd ::
  "(string option \<times> 'a) list \<Rightarrow> 'a \<Rightarrow> string option \<Rightarrow> (string option \<times> 'a) list" where
  "queueAdd q d jobId =
     (case jobId of
        None \<Rightarrow> q @ [(None, d)]
      | Some k \<Rightarrow> if Some k \<in> fst ` set q then q else q @ [(Some k, d)])"

text \<open>\<^verbatim>\<open>s3.send(new GetObjectCommand({ Bucket: bucket, Key: key }))\<close>: fails without a bucket name.\<close>

definition s3Get :: "sys \<Rightarrow> string \<Rightarrow> s3object option" where
  "s3Get s k = (if AWS_S3_BUCKET s = None then None else bucket s k)"

text \<open>
  \<^verbatim>\<open>uploadToS3(fileBuffer, contentType, prefix)\<close> of \<^verbatim>\<open>services/s3.js\<close>: throws without a
  bucket name, stores the buffer under \<^verbatim>\<open>prefix + crypto.randomUUID()\<close> and returns the
  key and the URL.
\<close>

definition uploadToS3 ::
  "buffer \<Rightarrow> string \<Rightarrow> string \<Rightarrow> sys \<Rightarrow> failure + (string \<times> string) \<times> sys" where
  "uploadToS3 fileBuffer ctype prefix s =
     (if AWS_S3_BUCKET s = None then Inl BucketNotConfigured
      else
        let (uuid, s1) = newId s;
            k = prefix @ uuid;
            s2 = s1\<lparr>bucket := (bucket s1)(k \<mapsto>
                   buffer.extend fileBuffer (s3object.fields (Some ctype)))\<rparr>
        in Inr ((k, urlBase s @ ''/'' @ k), s2))"

text \<open>
  \<^verbatim>\<open>generateOutputPdfBuffer(pages)\<close>: the render engine prints one PDF page per layout page.
  The model keeps the pages the document holds; the text of its bytes is not modelled
  (nothing in the pipeline reads it) and is left empty.
\<close>

definition generateOutputPdfBuffer :: "page list \<Rightarrow> buffer" where
  "generateOutputPdfBuffer pages = \<lparr>base64 = [], pdfPages = Some pages\<rparr>"

section \<open>Merge worker: ordering and concatenation\<close>

text \<open>
  \<^verbatim>\<open>[...jobDoc.pageArtifacts].sort((a, b) => a.pageIndex - b.pageIndex)\<close>:
  \<^verbatim>\<open>Array.prototype.sort\<close> is a stable sort by the comparator, \<open>sort_key\<close> is the
  stable insertion sort by the key.
\<close>

definition sortedArtifacts :: "artifact list \<Rightarrow> artifact list" where
  "sortedArtifacts arts = sort_key pageIndex arts"

text \<open>
  The download loop: one \<^verbatim>\<open>GetObjectCommand\<close> per artifact, in the order of the sorted
  list; a key that the bucket does not hold (\<open>getObj\<close> is the lookup) makes \<^verbatim>\<open>s3.send\<close> throw.
\<close>

fun downloadArtifacts ::
  "(string \<rightharpoonup> s3object) \<Rightarrow> artifact list \<Rightarrow> failure + buffer list" where
  "downloadArtifacts getObj [] = Inr []"
| "downloadArtifacts getObj (a # as) =
     (case getObj (key a) of
        None \<Rightarrow> Inl (S3GetFailed (key a))
      | Some obj \<Rightarrow>
          (case downloadArtifacts getObj as of
             Inl e \<Rightarrow> Inl e
           | Inr bs \<Rightarrow> Inr (buffer.truncate obj # bs)))"

text \<open>
  \<^verbatim>\<open>mergedPdf = PDFDocument.create()\<close>, then for each buffer
  \<^verbatim>\<open>src = PDFDocument.load(bytes)\<close>, \<^verbatim>\<open>copyPages(src, src.getPageIndices())\<close> and
  \<^verbatim>\<open>addPage\<close> for each copied page. The accumulator is the merged document.
\<close>

fun copyAllPages :: "page list \<Rightarrow> buffer list \<Rightarrow> failure + page list" where
  "copyAllPages mergedPdf [] = Inr mergedPdf"
| "copyAllPages mergedPdf (bytes # bs) =
     (case pdfPages bytes of
        None \<Rightarrow> Inl PdfLoadFailed
      | Some copied \<Rightarrow> copyAllPages (mergedPdf @ copied) bs)"

text \<open>Sort, download and concatenate: the pages of the merged document.\<close>

definition mergePages ::
  "(string \<rightharpoonup> s3object) \<Rightarrow> artifact list \<Rightarrow> failure + page list" where
  "mergePages getObj arts =
     (case downloadArtifacts getObj (sortedArtifacts arts) of
        Inl e \<Rightarrow> Inl e
      | Inr pdfDocs \<Rightarrow> copyAllPages [] pdfDocs)"

section \<open>Asset resolver\<close>

text \<open>
  \<^verbatim>\<open>item.src.startsWith('s3://')\<close> and \<^verbatim>\<open>item.src.slice(5)\<close>: the blob key an item refers
  to, if it refers to one.
\<close>

definition s3KeyOf :: "item \<Rightarrow> string option" where
  "s3KeyOf it =
     (case src it of
        None \<Rightarrow> None
      | Some u \<Rightarrow> if startsWith u ''s3://'' then Some (drop 5 u) else None)"

text \<open>\<^verbatim>\<open>Set.prototype.add\<close>: a set keeps its elements once, in insertion order.\<close>

definition setAdd :: "'a list \<Rightarrow> 'a \<Rightarrow> 'a list" where
  "setAdd ks k = (if k \<in> set ks then ks else ks @ [k])"

text \<open>The first pass over the pages and their items: \<^verbatim>\<open>keysToFetch\<close>.\<close>

definition keysToFetch :: "page list \<Rightarrow> string list" where
  "keysToFetch layoutPages =
     foldl (\<lambda>ks it. case s3KeyOf it of None \<Rightarrow> ks | Some k \<Rightarrow> setAdd ks k) []
       (concat (map items layoutPages))"

text \<open>\<^verbatim>\<open>`data:${contentType};base64,${base64}`\<close> with \<^verbatim>\<open>response.ContentType || 'image/png'\<close>.\<close>

definition dataUrl :: "s3object \<Rightarrow> string" where
  "dataUrl response =
     ''data:'' @
     (case contentType response of
        None \<Rightarrow> ''image/png''
      | Some c \<Rightarrow> if c = [] then ''image/png'' else c) @
     '';base64,'' @ base64 response"

text \<open>The second worker file of \<^verbatim>\<open>part_000\<close> writes \<^verbatim>\<open>`data:image/png;base64,${base64}`\<close>.\<close>

definition dataUrl_part2 :: "s3object \<Rightarrow> string" where
  "dataUrl_part2 response = ''data:image/png;base64,'' @ base64 response"

text \<open>
  The download of the keys: one \<^verbatim>\<open>s3.send\<close> per element of \<^verbatim>\<open>keysToFetch\<close>, each in its
  own \<^verbatim>\<open>try\<close>; a fetch that fails leaves the cache as it is.
\<close>

definition fetchAll ::
  "(string \<Rightarrow> s3object option) \<Rightarrow> (s3object \<Rightarrow> string) \<Rightarrow> string list \<Rightarrow> (string \<rightharpoonup> string)" where
  "fetchAll getObj mk ks =
     foldl (\<lambda>cache k. case getObj k of None \<Rightarrow> cache | Some response \<Rightarrow> cache(k \<mapsto> mk response))
       Map.empty ks"

text \<open>
  The second pass. \<^verbatim>\<open>{ ...item, src: cache.get(key) || item.src }\<close> in
  \<^verbatim>\<open>workers/pdfWorker.js\<close> and in the cluster worker of \<^verbatim>\<open>part_000\<close> (a data URL is never
  the empty string); \<^verbatim>\<open>{ ...item, src: cache.get(key) }\<close> in the second worker file of
  \<^verbatim>\<open>part_000\<close>.
\<close>

definition resolveItem :: "(string \<rightharpoonup> string) \<Rightarrow> item \<Rightarrow> item" where
  "resolveItem cache it =
     (case s3KeyOf it of
        None \<Rightarrow> it
      | Some k \<Rightarrow> it\<lparr>src := (case cache k of None \<Rightarrow> src it | Some d \<Rightarrow> Some d)\<rparr>)"

definition resolveItem_part2 :: "(string \<rightharpoonup> string) \<Rightarrow> item \<Rightarrow> item" where
  "resolveItem_part2 cache it =
     (case s3KeyOf it of
        None \<Rightarrow> it
      | Some k \<Rightarrow> it\<lparr>src := cache k\<rparr>)"

text \<open>\<^verbatim>\<open>resolveS3ImagesToDataUrls\<close> of \<^verbatim>\<open>workers/pdfWorker.js\<close> (lines 40 to 85).\<close>

definition resolveS3ImagesToDataUrls :: "sys \<Rightarrow> page list \<Rightarrow> page list" where
  "resolveS3ImagesToDataUrls s layoutPages =
     (let cache = fetchAll (s3Get s) dataUrl (keysToFetch layoutPages)
      in map (\<lambda>page. page\<lparr>items := map (resolveItem cache) (items page)\<rparr>) layoutPages)"

text \<open>
  \<^verbatim>\<open>resolveS3ImagesToDataUrls\<close> of the cluster worker (\<^verbatim>\<open>part_000\<close>, lines 40 to 111): it
  throws when \<^verbatim>\<open>AWS_S3_BUCKET\<close> is not set.
\<close>

definition resolveS3ImagesToDataUrls_cluster :: "sys \<Rightarrow> page list \<Rightarrow> failure + page list" where
  "resolveS3ImagesToDataUrls_cluster s layoutPages =
     (if AWS_S3_BUCKET s = None then Inl BucketNotConfigured
      else
        let cache = fetchAll (s3Get s) dataUrl (keysToFetch layoutPages)
        in Inr (map (\<lambda>page. page\<lparr>items := map (resolveItem cache) (items page)\<rparr>) layoutPages))"

text \<open>
  \<^verbatim>\<open>resolveS3ImagesToDataUrls\<close> of the second worker file of \<^verbatim>\<open>part_000\<close> (lines 372 to
  419).
\<close>

definition resolveS3ImagesToDataUrls_part2 :: "sys \<Rightarrow> page list \<Rightarrow> failure + page list" where
  "resolveS3ImagesToDataUrls_part2 s layoutPages =
     (if AWS_S3_BUCKET s = None then Inl BucketNotConfigured
      else
        let cache = fetchAll (s3Get s) dataUrl_part2 (keysToFetch layoutPages)
        in Inr (map (\<lambda>page. page\<lparr>items := map (resolveItem_part2 cache) (items page)\<rparr>)
             layoutPages))"

section \<open>Render workers\<close>

text \<open>
  The atomic update of the job after a page was stored:
  \<^verbatim>\<open>{ $inc: { completedPages: 1 }, $push: { pageArtifacts: { key, pageIndex } } }\<close>.
\<close>

definition incAndPush :: "string \<Rightarrow> nat \<Rightarrow> documentJob \<Rightarrow> documentJob" where
  "incAndPush k i j =
     j\<lparr>completedPages := completedPages j + 1,
       pageArtifacts := pageArtifacts j @ [\<lparr>key = k, pageIndex = i\<rparr>]\<rparr>"

text \<open>
  \<^verbatim>\<open>mergePdfQueue.add('mergeJob', { jobId, email, assignedQuota, adminUserId })\<close>: every
  merge enqueue of the repository is written without an options argument, so without a
  custom id.
\<close>

definition enqueueMerge :: "mergeTask \<Rightarrow> sys \<Rightarrow> sys" where
  "enqueueMerge d s = s\<lparr>mergePdfQueue := queueAdd (mergePdfQueue s) d None\<rparr>"

text \<open>The render worker of \<^verbatim>\<open>workers/pdfWorker.js\<close> (lines 101 to 143).\<close>

definition renderWorker :: "renderTask \<Rightarrow> sys \<Rightarrow> outcome \<times> sys" where
  "renderWorker d s =
     (case findById (jobs s) (t_jobId d) of
        None \<Rightarrow> (Returned, s)
      | Some jobDoc \<Rightarrow>
          let s1 = updateJob (t_jobId d)
                     (\<lambda>j. j\<lparr>status := ''processing'', stage := ''rendering''\<rparr>) s
          in
          (case findUser (users s1) (toLowerCase (t_email d)) of
             None \<Rightarrow> (Threw UserNotFound, s1)
           | Some user \<Rightarrow>
               (case resolveS3ImagesToDataUrls s1 [t_pageLayout d] of
                  [] \<Rightarrow> (Threw TypeError, s1)
                | resolvedPage # _ \<Rightarrow>
                    (case uploadToS3 (generateOutputPdfBuffer [resolvedPage])
                            ''application/pdf'' ''generated/pages/'' s1 of
                       Inl e \<Rightarrow> (Threw e, s1)
                     | Inr ((k, url), s2) \<Rightarrow>
                         let s3 = updateJob (t_jobId d) (incAndPush k (t_pageIndex d)) s2 in
                         (case findById (jobs s3) (t_jobId d) of
                            None \<Rightarrow> (Threw TypeError, s3)
                          | Some updated \<Rightarrow>
                              if completedPages updated = totalPages updated
                              then (Returned,
                                updateJob (t_jobId d) (\<lambda>j. j\<lparr>stage := ''merging''\<rparr>)
                                  (enqueueMerge
                                    \<lparr>m_jobId = t_jobId d, m_email = toLowerCase (t_email d),
                                     m_assignedQuota = t_assignedQuota d,
                                     m_adminUserId = t_adminUserId d\<rparr> s3))
                              else (Returned, s3))))))"

text \<open>
  The render worker of the cluster worker file (\<^verbatim>\<open>part_000\<close>, lines 122 to 183). A task
  without a \<^verbatim>\<open>jobId\<close> finds no job; an unknown owner marks the job failed before the
  throw; the update also sets \<^verbatim>\<open>status\<close>, \<^verbatim>\<open>stage\<close> and \<^verbatim>\<open>userId\<close>; the merge is
  enqueued when \<^verbatim>\<open>completedPages >= totalPages && totalPages > 0\<close>.
\<close>

definition renderWorker_cluster :: "renderTask \<Rightarrow> sys \<Rightarrow> outcome \<times> sys" where
  "renderWorker_cluster d s =
     (case (if t_jobId d = [] then None else findById (jobs s) (t_jobId d)) of
        None \<Rightarrow> (Returned, s)
      | Some targetJobDoc \<Rightarrow>
          let s1 = updateJob (t_jobId d)
                     (\<lambda>j. j\<lparr>status := ''processing'', stage := ''rendering''\<rparr>) s
          in
          (case findUser (users s1) (toLowerCase (t_email d)) of
             None \<Rightarrow>
               (Threw UserNotFound,
                updateJob (t_jobId d) (\<lambda>j. j\<lparr>status := ''failed'', stage := ''failed''\<rparr>) s1)
           | Some user \<Rightarrow>
               (case resolveS3ImagesToDataUrls_cluster s1 [t_pageLayout d] of
                  Inl e \<Rightarrow> (Threw e, s1)
                | Inr [] \<Rightarrow> (Threw TypeError, s1)
                | Inr (pageWithDataUrl # _) \<Rightarrow>
                    (case uploadToS3 (generateOutputPdfBuffer [pageWithDataUrl])
                            ''application/pdf'' ''generated/pages/'' s1 of
                       Inl e \<Rightarrow> (Threw e, s1)
                     | Inr ((k, url), s2) \<Rightarrow>
                         let s3 = updateJob (t_jobId d)
                                    (\<lambda>j. (incAndPush k (t_pageIndex d) j)
                                       \<lparr>status := ''processing'', stage := ''rendering'',
                                        userId := Some (u_id user)\<rparr>) s2
                         in
                         (case findById (jobs s3) (t_jobId d) of
                            None \<Rightarrow> (Returned, s3)
                          | Some updated \<Rightarrow>
                              if completedPages updated \<ge> totalPages updated
                                 \<and> totalPages updated > 0
                              then (Returned,
                                updateJob (t_jobId d) (\<lambda>j. j\<lparr>stage := ''merging''\<rparr>)
                                  (enqueueMerge
                                    \<lparr>m_jobId = t_jobId d, m_email = toLowerCase (t_email d),
                                     m_assignedQuota = t_assignedQuota d,
                                     m_adminUserId = t_adminUserId d\<rparr> s3))
                              else (Returned, s3))))))"

text \<open>
  The render worker of the second worker file of \<^verbatim>\<open>part_000\<close> (lines 432 to 486): the
  owner is looked up and not checked, the job is updated and then read again, and the
  merge task carries the email as the task gave it.
\<close>

definition renderWorker_part2 :: "renderTask \<Rightarrow> sys \<Rightarrow> outcome \<times> sys" where
  "renderWorker_part2 d s =
     (case findById (jobs s) (t_jobId d) of
        None \<Rightarrow> (Returned, s)
      | Some jobDoc \<Rightarrow>
          let s1 = updateJob (t_jobId d)
                     (\<lambda>j. j\<lparr>status := ''processing'', stage := ''rendering''\<rparr>) s
          in
          (case resolveS3ImagesToDataUrls_part2 s1 [t_pageLayout d] of
             Inl e \<Rightarrow> (Threw e, s1)
           | Inr [] \<Rightarrow> (Threw TypeError, s1)
           | Inr (pageWithResolvedImages # _) \<Rightarrow>
               (case uploadToS3 (generateOutputPdfBuffer [pageWithResolvedImages])
                       ''application/pdf'' ''generated/pages/'' s1 of
                  Inl e \<Rightarrow> (Threw e, s1)
                | Inr ((k, url), s2) \<Rightarrow>
                    let s3 = updateJob (t_jobId d) (incAndPush k (t_pageIndex d)) s2 in
                    (case findById (jobs s3) (t_jobId d) of
                       None \<Rightarrow> (Threw TypeError, s3)
                     | Some updated \<Rightarrow>
                         if completedPages updated = totalPages updated
                         then (Returned,
                           updateJob (t_jobId d) (\<lambda>j. j\<lparr>stage := ''merging''\<rparr>)
                             (enqueueMerge
                               \<lparr>m_jobId = t_jobId d, m_email = t_email d,
                                m_assignedQuota = t_assignedQuota d,
                                m_adminUserId = t_adminUserId d\<rparr> s3))
                         else (Returned, s3)))))"

section \<open>Merge workers\<close>

text \<open>\<^verbatim>\<open>mergedPdf.save()\<close>: the bytes of the merged document.\<close>

definition pdfSave :: "page list \<Rightarrow> buffer" where
  "pdfSave mergedPdf = \<lparr>base64 = [], pdfPages = Some mergedPdf\<rparr>"

text \<open>\<^verbatim>\<open>Document.create({ ... })\<close>: a new record under a new \<^verbatim>\<open>_id\<close>.\<close>

definition createDocument ::
  "string \<Rightarrow> string \<Rightarrow> int option \<Rightarrow> string \<Rightarrow> string option \<Rightarrow> sys \<Rightarrow> document \<times> sys" where
  "createDocument k url prints admin mime s =
     (let (i, s1) = newId s;
          doc = \<lparr>d_id = i, title = ''Generated Output'', fileKey = k, fileUrl = url,
                 totalPrints = prints, d_createdBy = admin, mimeType = mime,
                 documentType = ''generated-output''\<rparr>
      in (doc, s1\<lparr>documents := documents s1 @ [doc]\<rparr>))"

text \<open>
  The upsert of the access grant, \<^verbatim>\<open>updateOne\<close> or \<^verbatim>\<open>findOneAndUpdate\<close> with
  \<^verbatim>\<open>{ upsert: true }\<close>, filtered by \<^verbatim>\<open>{ userId, documentId }\<close>: the first grant that
  matches is updated; when none matches, a grant with the filter's fields and no session
  token is inserted and updated. The result is the grant's \<^verbatim>\<open>_id\<close>.
\<close>

definition upsertAccess ::
  "string option \<Rightarrow> string \<Rightarrow> (documentAccess \<Rightarrow> documentAccess) \<Rightarrow> sys \<Rightarrow> string \<times> sys" where
  "upsertAccess uid did upd s =
     (case find (\<lambda>a. a_userId a = uid \<and> a_documentId a = did) (accesses s) of
        Some a \<Rightarrow>
          (a_id a, s\<lparr>accesses := map (\<lambda>b. if a_id b = a_id a then upd b else b) (accesses s)\<rparr>)
      | None \<Rightarrow>
          let (i, s1) = newId s
          in (i, s1\<lparr>accesses := accesses s1 @
                [upd \<lparr>a_id = i, a_userId = uid, a_documentId = did, a_assignedQuota = 0,
                      usedPrints = 0, sessionToken = None\<rparr>]\<rparr>))"

text \<open>
  \<^verbatim>\<open>if (!access.sessionToken) { access.sessionToken = crypto.randomBytes(32).toString('hex');
  await access.save(); }\<close> on the grant with the given \<^verbatim>\<open>_id\<close>.
\<close>

definition ensureSessionToken :: "string \<Rightarrow> sys \<Rightarrow> sys" where
  "ensureSessionToken aid s =
     (case find (\<lambda>a. a_id a = aid) (accesses s) of
        None \<Rightarrow> s
      | Some access \<Rightarrow>
          if sessionToken access = None \<or> sessionToken access = Some []
          then
            let (tok, s1) = newId s
            in s1\<lparr>accesses := map (\<lambda>b. if a_id b = aid then b\<lparr>sessionToken := Some tok\<rparr> else b)
                    (accesses s1)\<rparr>
          else s)"

text \<open>The merge worker of \<^verbatim>\<open>workers/pdfWorker.js\<close> (lines 152 to 210).\<close>

definition mergeWorker :: "mergeTask \<Rightarrow> sys \<Rightarrow> outcome \<times> sys" where
  "mergeWorker d s =
     (case findById (jobs s) (m_jobId d) of
        None \<Rightarrow> (Returned, s)
      | Some jobDoc \<Rightarrow>
          let s1 = updateJob (m_jobId d)
                     (\<lambda>j. j\<lparr>stage := ''merging'', status := ''processing''\<rparr>) s
          in
          (case findUser (users s1) (toLowerCase (m_email d)) of
             None \<Rightarrow> (Threw UserNotFound, s1)
           | Some user \<Rightarrow>
               (case mergePages (s3Get s1) (pageArtifacts jobDoc) of
                  Inl e \<Rightarrow> (Threw e, s1)
                | Inr mergedPdf \<Rightarrow>
                    (case uploadToS3 (pdfSave mergedPdf) ''application/pdf''
                            ''generated/output/'' s1 of
                       Inl e \<Rightarrow> (Threw e, s1)
                     | Inr ((k, url), s2) \<Rightarrow>
                         let (doc, s3) = createDocument k url None (m_adminUserId d)
                                           (Some ''application/pdf'') s2;
                             (aid, s4) = upsertAccess (Some (u_id user)) (d_id doc)
                                           (\<lambda>a. a\<lparr>a_userId := Some (u_id user),
                                                  a_documentId := d_id doc,
                                                  a_assignedQuota := m_assignedQuota d,
                                                  usedPrints := 0\<rparr>) s3
                         in (Returned,
                             updateJob (m_jobId d)
                               (\<lambda>j. j\<lparr>status := ''completed'', stage := ''completed'',
                                      outputDocumentId := Some (d_id doc),
                                      userId := Some (u_id user)\<rparr>) s4)))))"

text \<open>
  The merge worker of the cluster worker file (\<^verbatim>\<open>part_000\<close>, lines 206 to 293): an
  unknown owner marks the job failed, a missing bucket name throws, and the grant gets a
  session token when it has none.
\<close>

definition mergeWorker_cluster :: "mergeTask \<Rightarrow> sys \<Rightarrow> outcome \<times> sys" where
  "mergeWorker_cluster d s =
     (case findById (jobs s) (m_jobId d) of
        None \<Rightarrow> (Returned, s)
      | Some jobDoc \<Rightarrow>
          let s1 = updateJob (m_jobId d)
                     (\<lambda>j. j\<lparr>stage := ''merging'', status := ''processing''\<rparr>) s
          in
          (case findUser (users s1) (toLowerCase (m_email d)) of
             None \<Rightarrow>
               (Threw UserNotFound,
                updateJob (m_jobId d) (\<lambda>j. j\<lparr>stage := ''failed'', status := ''failed''\<rparr>) s1)
           | Some user \<Rightarrow>
               if AWS_S3_BUCKET s1 = None then (Threw BucketNotConfigured, s1)
               else
               (case mergePages (s3Get s1) (pageArtifacts jobDoc) of
                  Inl e \<Rightarrow> (Threw e, s1)
                | Inr mergedPdf \<Rightarrow>
                    (case uploadToS3 (pdfSave mergedPdf) ''application/pdf''
                            ''generated/output/'' s1 of
                       Inl e \<Rightarrow> (Threw e, s1)
                     | Inr ((k, url), s2) \<Rightarrow>
                         let (doc, s3) = createDocument k url (Some 0) (m_adminUserId d)
                                           (Some ''application/pdf'') s2;
                             (aid, s4) = upsertAccess (Some (u_id user)) (d_id doc)
                                           (\<lambda>a. a\<lparr>a_userId := Some (u_id user),
                                                  a_documentId := d_id doc,
                                                  a_assignedQuota := m_assignedQuota d,
                                                  usedPrints := 0\<rparr>) s3;
                             s5 = ensureSessionToken aid s4
                         in (Returned,
                             updateJob (m_jobId d)
                               (\<lambda>j. j\<lparr>status := ''completed'', stage := ''completed'',
                                      outputDocumentId := Some (d_id doc),
                                      userId := Some (u_id user)\<rparr>) s5)))))"

text \<open>
  The merge worker of the second worker file of \<^verbatim>\<open>part_000\<close> (lines 495 to 580): no
  stage is written and no owner is looked up before the merge; the grant is filtered by
  the job's own \<^verbatim>\<open>userId\<close>.
\<close>

definition mergeWorker_part2 :: "mergeTask \<Rightarrow> sys \<Rightarrow> outcome \<times> sys" where
  "mergeWorker_part2 d s =
     (case findById (jobs s) (m_jobId d) of
        None \<Rightarrow> (Returned, s)
      | Some jobDoc \<Rightarrow>
          (case mergePages (s3Get s) (pageArtifacts jobDoc) of
             Inl e \<Rightarrow> (Threw e, s)
           | Inr mergedPdf \<Rightarrow>
               (case uploadToS3 (pdfSave mergedPdf) ''application/pdf''
                       ''generated/output/'' s of
                  Inl e \<Rightarrow> (Threw e, s)
                | Inr ((k, url), s2) \<Rightarrow>
                    let (doc, s3) = createDocument k url None (m_adminUserId d) None s2;
                        (aid, s4) = upsertAccess (userId jobDoc) (d_id doc)
                                      (\<lambda>a. a\<lparr>a_assignedQuota := m_assignedQuota d,
                                             usedPrints := 0\<rparr>) s3;
                        s5 = ensureSessionToken aid s4
                    in (Returned,
                        updateJob (m_jobId d)
                          (\<lambda>j. j\<lparr>status := ''completed'', stage := ''completed'',
                                 outputDocumentId := Some (d_id doc)\<rparr>) s5))))"

section \<open>Reconciler\<close>

text \<open>
  The condition of the self-heal block of \<^verbatim>\<open>GET /assigned\<close> (\<^verbatim>\<open>routes/docs.js\<close>, lines
  505 to 512).
\<close>

definition needsMerge :: "documentJob \<Rightarrow> bool" where
  "needsMerge job \<longleftrightarrow>
     totalPages job > 0 \<and> completedPages job \<ge> totalPages job \<and>
     outputDocumentId job = None \<and> status job \<noteq> ''completed'' \<and> stage job \<noteq> ''merging''"

text \<open>The body of the block for one job: the enqueue, then the save of the stage and status.\<close>

definition healJob :: "sys \<Rightarrow> documentJob \<Rightarrow> sys" where
  "healJob s job =
     (if needsMerge job
      then updateJob (j_id job) (\<lambda>j. j\<lparr>stage := ''merging'', status := ''processing''\<rparr>)
             (enqueueMerge
               \<lparr>m_jobId = j_id job, m_email = email job, m_assignedQuota = assignedQuota job,
                m_adminUserId = createdBy job\<rparr> s)
      else s)"

text \<open>
  The pass over \<^verbatim>\<open>DocumentJobs.find({ userId: req.user._id })\<close>. The listing is sorted by
  creation time, which orders the enqueues and nothing else; the model visits the jobs
  in the order of the collection.
\<close>

definition selfHeal :: "string \<Rightarrow> sys \<Rightarrow> sys" where
  "selfHeal reqUser s =
     foldl healJob s (filter (\<lambda>job. userId job = Some reqUser) (jobs s))"

section \<open>Access routes\<close>

definition endsWith :: "string \<Rightarrow> string \<Rightarrow> bool" where
  "endsWith s p \<longleftrightarrow> length p \<le> length s \<and> drop (length s - length p) s = p"

text \<open>
  \<^verbatim>\<open>getSignedUrl(s3, new GetObjectCommand({ Bucket, Key }), { expiresIn: 60 })\<close>: some URL
  for the key, valid for 60 seconds.
\<close>

definition getSignedUrl :: "string \<Rightarrow> string \<Rightarrow> string" where
  "getSignedUrl b k = ''https://'' @ b @ ''.s3.amazonaws.com/'' @ k @ ''?X-Amz-Expires=60''"

text \<open>
  \<^verbatim>\<open>POST /secure-print\<close> (\<^verbatim>\<open>routes/docs.js\<close>, lines 421 to 469, and the same handler at
  lines 174 to 247) for the authenticated user \<open>reqUser\<close> and the \<^verbatim>\<open>sessionToken\<close> of the
  body. \<^verbatim>\<open>populate('documentId')\<close> yields the linked document, or nothing when the
  reference dangles.
\<close>

definition securePrint :: "string \<Rightarrow> string option \<Rightarrow> sys \<Rightarrow> response \<times> sys" where
  "securePrint reqUser tokenIn s =
     (if tokenIn = None \<or> tokenIn = Some [] then (Message 400 ''sessionToken is required'', s)
      else
        (case find (\<lambda>a. sessionToken a = tokenIn) (accesses s) of
           None \<Rightarrow> (Message 404 ''Access not found'', s)
         | Some access \<Rightarrow>
             let doc = find (\<lambda>d. d_id d = a_documentId access) (documents s);
                 remaining = a_assignedQuota access - usedPrints access
             in
             if remaining \<le> 0 then (Message 400 ''Print limit exceeded'', s)
             else
               let used = usedPrints access + 1;
                   s1 = s\<lparr>accesses := map (\<lambda>b. if a_id b = a_id access
                                                then b\<lparr>usedPrints := used\<rparr> else b)
                                          (accesses s)\<rparr>
               in
               (case doc of
                  None \<Rightarrow> (Message 404 ''Document not found'', s1)
                | Some d \<Rightarrow>
                    (case AWS_S3_BUCKET s1 of
                       None \<Rightarrow> (Message 500 ''S3 not configured'', s1)
                     | Some b \<Rightarrow>
                         (PrintUrl (getSignedUrl b (fileKey d))
                            (a_assignedQuota access - used) (a_assignedQuota access), s1)))))"

text \<open>
  \<^verbatim>\<open>POST /secure-render\<close> (\<^verbatim>\<open>routes/docs.js\<close>, lines 369 to 418). A grant without a
  \<^verbatim>\<open>userId\<close> makes \<^verbatim>\<open>access.userId.toString()\<close> throw, and so does a failed download;
  the \<^verbatim>\<open>catch\<close> answers 500.
\<close>

definition secureRender :: "string \<Rightarrow> string option \<Rightarrow> sys \<Rightarrow> response \<times> sys" where
  "secureRender reqUser tokenIn s =
     (if tokenIn = None \<or> tokenIn = Some [] then (Message 400 ''sessionToken is required'', s)
      else
        (case find (\<lambda>a. sessionToken a = tokenIn) (accesses s) of
           None \<Rightarrow> (Message 404 ''Access not found'', s)
         | Some access \<Rightarrow>
             (case a_userId access of
                None \<Rightarrow> (Message 500 ''Internal server error'', s)
              | Some owner \<Rightarrow>
                  if owner \<noteq> reqUser
                  then (Message 403 ''Not authorized for this document'', s)
                  else
                    (case find (\<lambda>d. d_id d = a_documentId access) (documents s) of
                       None \<Rightarrow> (Message 404 ''Document not found'', s)
                     | Some d \<Rightarrow>
                         (case AWS_S3_BUCKET s of
                            None \<Rightarrow> (Message 500 ''S3 not configured'', s)
                          | Some b \<Rightarrow>
                              (case bucket s (fileKey d) of
                                 None \<Rightarrow> (Message 500 ''Internal server error'', s)
                               | Some obj \<Rightarrow>
                                   (Sent (if endsWith (toLowerCase (title d)) ''.svg''
                                          then ''image/svg+xml'' else ''application/pdf'')
                                      (base64 obj), s)))))))"

section \<open>Job creation\<close>

text \<open>JavaScript's truthiness, property read (which throws on \<^verbatim>\<open>null\<close> and
  \<^verbatim>\<open>undefined\<close>) and object spread.\<close>

fun truthy :: "jsval \<Rightarrow> bool" where
  "truthy JUndefined = False"
| "truthy JNull = False"
| "truthy (JBool b) = b"
| "truthy (JNum n) = (n \<noteq> 0)"
| "truthy (JStr t) = (t \<noteq> [])"
| "truthy (JArr xs) = True"
| "truthy (JObj fs) = True"

fun getProp :: "jsval \<Rightarrow> string \<Rightarrow> failure + jsval" where
  "getProp JUndefined k = Inl TypeError"
| "getProp JNull k = Inl TypeError"
| "getProp (JObj fs) k = Inr (case map_of fs k of None \<Rightarrow> JUndefined | Some v \<Rightarrow> v)"
| "getProp v k = Inr JUndefined"

fun spread :: "jsval \<Rightarrow> (string \<times> jsval) list" where
  "spread (JObj fs) = fs"
| "spread (JArr xs) = zip (map decimal [0..<length xs]) xs"
| "spread (JStr t) = zip (map decimal [0..<length t]) (map (\<lambda>c. JStr [c]) t)"
| "spread v = []"

text \<open>A \<^verbatim>\<open>map\<close> whose callback may throw: the first throw ends it.\<close>

fun mapThrowing :: "('a \<Rightarrow> failure + 'b) \<Rightarrow> 'a list \<Rightarrow> failure + 'b list" where
  "mapThrowing f [] = Inr []"
| "mapThrowing f (x # xs) =
     (case f x of
        Inl e \<Rightarrow> Inl e
      | Inr y \<Rightarrow> (case mapThrowing f xs of Inl e \<Rightarrow> Inl e | Inr ys \<Rightarrow> Inr (y # ys)))"

text \<open>
  \<^verbatim>\<open>{ ...item, src: typeof item.src === 'string' ? item.src : '' }\<close> and
  \<^verbatim>\<open>{ items: Array.isArray(page.items) ? page.items.map(...) : [] }\<close>.
\<close>

definition sanitizeItem :: "jsval \<Rightarrow> failure + item" where
  "sanitizeItem it =
     (case getProp it ''src'' of
        Inl e \<Rightarrow> Inl e
      | Inr v \<Rightarrow>
          Inr \<lparr>src = Some (case v of JStr u \<Rightarrow> u | _ \<Rightarrow> []),
               rest = filter (\<lambda>(k, w). k \<noteq> ''src'') (spread it)\<rparr>)"

definition sanitizePage :: "jsval \<Rightarrow> failure + page" where
  "sanitizePage pg =
     (case getProp pg ''items'' of
        Inl e \<Rightarrow> Inl e
      | Inr (JArr its) \<Rightarrow>
          (case mapThrowing sanitizeItem its of
             Inl e \<Rightarrow> Inl e
           | Inr xs \<Rightarrow> Inr \<lparr>items = xs\<rparr>)
      | Inr v \<Rightarrow> Inr \<lparr>items = []\<rparr>)"

text \<open>
  The enqueue of the render tasks:
  \<^verbatim>\<open>outputPdfQueue.add('renderPage', { ... }, { jobId: `${baseJobId}:page:${index}` })\<close>
  for each page and its index.
\<close>

definition pageTaskKey :: "string \<Rightarrow> nat \<Rightarrow> string" where
  "pageTaskKey baseJobId index = baseJobId @ '':page:'' @ decimal index"

definition enqueuePage ::
  "string \<Rightarrow> int \<Rightarrow> string \<Rightarrow> string \<Rightarrow> sys \<Rightarrow> nat \<times> page \<Rightarrow> sys" where
  "enqueuePage em quota admin baseJobId s ip =
     s\<lparr>outputPdfQueue := queueAdd (outputPdfQueue s)
          \<lparr>t_email = em, t_assignedQuota = quota, t_pageLayout = snd ip,
           t_pageIndex = fst ip, t_adminUserId = admin, t_jobId = baseJobId\<rparr>
          (Some (pageTaskKey baseJobId (fst ip)))\<rparr>"

text \<open>
  \<^verbatim>\<open>POST /assign-job\<close> (\<^verbatim>\<open>part_001\<close>, lines 83 to 163) for the authenticated
  administrator \<open>reqUser\<close> and the body's \<^verbatim>\<open>email\<close>, \<^verbatim>\<open>assignedQuota\<close> (an integer, when
  given) and \<^verbatim>\<open>layoutPages\<close>.
\<close>

definition assignJob ::
  "string \<Rightarrow> string option \<Rightarrow> int option \<Rightarrow> jsval \<Rightarrow> sys \<Rightarrow> response \<times> sys" where
  "assignJob reqUser emailIn quotaIn layoutPages s =
     (case (emailIn, quotaIn) of
        (Some em, Some pagesNum) \<Rightarrow>
          if em = [] \<or> pagesNum = 0 \<or> \<not> truthy layoutPages
          then (Message 400 ''email, assignedQuota and layoutPages are required'', s)
          else
            (case layoutPages of
               JArr pages \<Rightarrow>
                 if pages = [] then (Message 400 ''layoutPages must be a non-empty array'', s)
                 else if pagesNum \<le> 0
                 then (Message 400 ''assignedQuota must be a positive number'', s)
                 else
                   (case mapThrowing sanitizePage pages of
                      Inl e \<Rightarrow> (Message 500 ''Internal server error'', s)
                    | Inr sanitizedLayoutPages \<Rightarrow>
                        (case findUser (users s) (toLowerCase em) of
                           None \<Rightarrow> (Message 404 ''User with this email not found'', s)
                         | Some user \<Rightarrow>
                             let (baseJobId, s1) = newId s;
                                 jobDoc = \<lparr>j_id = baseJobId, email = toLowerCase em,
                                   assignedQuota = pagesNum, status = ''processing'',
                                   stage = ''rendering'',
                                   totalPages = int (length sanitizedLayoutPages),
                                   completedPages = 0, pageArtifacts = [],
                                   outputDocumentId = None, userId = Some (u_id user),
                                   createdBy = reqUser\<rparr>;
                                 s2 = s1\<lparr>jobs := jobs s1 @ [jobDoc]\<rparr>
                             in (JobCreated baseJobId,
                                 foldl (enqueuePage (toLowerCase em) pagesNum reqUser baseJobId) s2
                                   (enumerate 0 sanitizedLayoutPages))))
             | _ \<Rightarrow> (Message 400 ''layoutPages must be a non-empty array'', s))
      | _ \<Rightarrow> (Message 400 ''email, assignedQuota and layoutPages are required'', s))"

section \<open>Executions\<close>

text \<open>
  What happens to the shared state, one handler run at a time: the delivery of a render
  or merge task to one of the worker files (the queues deliver at least once, so the same
  task may be delivered again), a listing of a user's jobs (which runs the reconciler), a
  job creation, a print. An execution handles a list of such events in order.
\<close>

datatype event =
    RenderDelivery renderTask
  | RenderDelivery_cluster renderTask
  | RenderDelivery_part2 renderTask
  | MergeDelivery mergeTask
  | MergeDelivery_cluster mergeTask
  | MergeDelivery_part2 mergeTask
  | ListAssigned string
  | AssignJob string "string option" "int option" jsval
  | SecurePrint string "string option"

fun handle :: "event \<Rightarrow> sys \<Rightarrow> sys" where
  "handle (RenderDelivery d) s = snd (renderWorker d s)"
| "handle (RenderDelivery_cluster d) s = snd (renderWorker_cluster d s)"
| "handle (RenderDelivery_part2 d) s = snd (renderWorker_part2 d s)"
| "handle (MergeDelivery d) s = snd (mergeWorker d s)"
| "handle (MergeDelivery_cluster d) s = snd (mergeWorker_cluster d s)"
| "handle (MergeDelivery_part2 d) s = snd (mergeWorker_part2 d s)"
| "handle (ListAssigned u) s = selfHeal u s"
| "handle (AssignJob u em q pages) s = snd (assignJob u em q pages s)"
| "handle (SecurePrint u tok) s = snd (securePrint u tok s)"

definition run :: "event list \<Rightarrow> sys \<Rightarrow> sys" where
  "run es s = foldl (\<lambda>s e. handle e s) s es"

text \<open>The render deliveries of an execution that carry the given job id.\<close>

fun renderOf :: "string \<Rightarrow> event \<Rightarrow> bool" where
  "renderOf i (RenderDelivery d) = (t_jobId d = i)"
| "renderOf i (RenderDelivery_cluster d) = (t_jobId d = i)"
| "renderOf i (RenderDelivery_part2 d) = (t_jobId d = i)"
| "renderOf i e = False"

definition renderDeliveries :: "string \<Rightarrow> event list \<Rightarrow> nat" where
  "renderDeliveries i es = length (filter (renderOf i) es)"

section \<open>Notions used in the statements\<close>

text \<open>What the reconciler writes to a job, and the merge task it enqueues for it.\<close>

definition healed :: "documentJob \<Rightarrow> documentJob" where
  "healed j = j\<lparr>stage := ''merging'', status := ''processing''\<rparr>"

definition mergeTaskOf :: "documentJob \<Rightarrow> mergeTask" where
  "mergeTaskOf job =
     \<lparr>m_jobId = j_id job, m_email = email job, m_assignedQuota = assignedQuota job,
      m_adminUserId = createdBy job\<rparr>"

text \<open>The state after a successful upload of a buffer under a prefix.\<close>

definition stored :: "string \<Rightarrow> buffer \<Rightarrow> string \<Rightarrow> sys \<Rightarrow> sys" where
  "stored pre buf ct s =
     s\<lparr>fresh := Suc (fresh s),
       bucket := (bucket s)(pre @ decimal (fresh s) \<mapsto> buffer.extend buf (s3object.fields (Some ct)))\<rparr>"

text \<open>
  The resolved form of a single page, as each worker file's resolver returns it for the
  one-page list the render worker passes.
\<close>

definition resolved :: "sys \<Rightarrow> page \<Rightarrow> page" where
  "resolved s p = hd (resolveS3ImagesToDataUrls s [p])"

definition resolved_cluster :: "sys \<Rightarrow> page \<Rightarrow> page" where
  "resolved_cluster s p = hd (projr (resolveS3ImagesToDataUrls_cluster s [p]))"

definition resolved_part2 :: "sys \<Rightarrow> page \<Rightarrow> page" where
  "resolved_part2 s p = hd (projr (resolveS3ImagesToDataUrls_part2 s [p]))"

text \<open>The key under which the next page document is stored.\<close>

definition pageKey :: "sys \<Rightarrow> string" where
  "pageKey s = ''generated/pages/'' @ decimal (fresh s)"

text \<open>
  The merge task a render worker enqueues for a render task (the second worker file of
  \<^verbatim>\<open>part_000\<close> passes the email on as it is).
\<close>

definition mergeTaskFor :: "renderTask \<Rightarrow> mergeTask" where
  "mergeTaskFor d = \<lparr>m_jobId = t_jobId d, m_email = toLowerCase (t_email d),
      m_assignedQuota = t_assignedQuota d, m_adminUserId = t_adminUserId d\<rparr>"

definition mergeTaskFor_part2 :: "renderTask \<Rightarrow> mergeTask" where
  "mergeTaskFor_part2 d = \<lparr>m_jobId = t_jobId d, m_email = t_email d,
      m_assignedQuota = t_assignedQuota d, m_adminUserId = t_adminUserId d\<rparr>"

text \<open>The writes the workers make to a job's status and stage.\<close>

definition rendering :: "documentJob \<Rightarrow> documentJob" where
  "rendering j = j\<lparr>status := ''processing'', stage := ''rendering''\<rparr>"

definition merging :: "documentJob \<Rightarrow> documentJob" where
  "merging j = j\<lparr>stage := ''merging''\<rparr>"

definition renderingFor :: "string \<Rightarrow> documentJob \<Rightarrow> documentJob" where
  "renderingFor u j = j\<lparr>status := ''processing'', stage := ''rendering'', userId := Some u\<rparr>"

definition failing :: "documentJob \<Rightarrow> documentJob" where
  "failing j = j\<lparr>status := ''failed'', stage := ''failed''\<rparr>"

text \<open>
  \<open>grows n j j'\<close>: from \<open>j\<close> to \<open>j'\<close>, \<open>totalPages\<close> is the same and \<open>completedPages\<close>
  did not decrease and rose by at most \<open>n\<close>. \<open>keeps n i s s'\<close>: a job with id \<open>i\<close> in
  \<open>s\<close> is still there in \<open>s'\<close>, and has grown by at most \<open>n\<close>.
\<close>

definition grows :: "int \<Rightarrow> documentJob \<Rightarrow> documentJob \<Rightarrow> bool" where
  "grows n j j' \<longleftrightarrow>
     totalPages j' = totalPages j \<and> completedPages j \<le> completedPages j' \<and>
     completedPages j' \<le> completedPages j + n"

definition keeps :: "int \<Rightarrow> string \<Rightarrow> sys \<Rightarrow> sys \<Rightarrow> bool" where
  "keeps n i s s' \<longleftrightarrow>
     (case findById (jobs s) i of
        None \<Rightarrow> True
      | Some j \<Rightarrow> (case findById (jobs s') i of None \<Rightarrow> False | Some j' \<Rightarrow> grows n j j'))"




text \<open>The value of a decimal text (the inverse of \<open>decimal\<close>).\<close>

definition digitVal :: "char \<Rightarrow> nat" where
  "digitVal c = length (takeWhile (\<lambda>x. x \<noteq> c) ''0123456789'')"

definition fromDecimal :: "string \<Rightarrow> nat" where
  "fromDecimal t = foldl (\<lambda>a c. 10 * a + digitVal c) 0 t"

text \<open>The queue entry of a page: its custom id and its payload.\<close>

definition pageTaskOf :: "string \<Rightarrow> int \<Rightarrow> string \<Rightarrow> string \<Rightarrow> nat \<times> page \<Rightarrow> string option \<times> renderTask" where
  "pageTaskOf em quota admin b ip =
     (Some (pageTaskKey b (fst ip)),
      \<lparr>t_email = em, t_assignedQuota = quota, t_pageLayout = snd ip, t_pageIndex = fst ip,
       t_adminUserId = admin, t_jobId = b\<rparr>)"

text \<open>\<^verbatim>\<open>Array.isArray(layoutPages) && layoutPages.length !== 0\<close>.\<close>

definition nonEmptyArray :: "jsval \<Rightarrow> bool" where
  "nonEmptyArray v = (case v of JArr (p # ps) \<Rightarrow> True | _ \<Rightarrow> False)"

section \<open>Example stores\<close>

text \<open>
  A store for the examples: the owner \<open>u1\<close> holds three grants, one with prints left,
  one whose document is gone, one whose quota is used up; \<open>u2\<close> is another user.
\<close>

definition printExample :: sys where
  "printExample =
     \<lparr>jobs = [],
      users = [\<lparr>u_id = ''u1'', u_email = ''owner@x''\<rparr>, \<lparr>u_id = ''u2'', u_email = ''other@x''\<rparr>],
      documents = [\<lparr>d_id = ''d1'', title = ''Generated Output'',
                     fileKey = ''generated/output/k1'',
                     fileUrl = ''https://cdn/generated/output/k1'', totalPrints = Some 0,
                     d_createdBy = ''admin'', mimeType = Some ''application/pdf'',
                     documentType = ''generated-output''\<rparr>],
      accesses = [\<lparr>a_id = ''a1'', a_userId = Some ''u1'', a_documentId = ''d1'',
                    a_assignedQuota = 2, usedPrints = 0, sessionToken = Some ''tokA''\<rparr>,
                  \<lparr>a_id = ''a2'', a_userId = Some ''u1'', a_documentId = ''gone'',
                    a_assignedQuota = 1, usedPrints = 0, sessionToken = Some ''tokB''\<rparr>,
                  \<lparr>a_id = ''a3'', a_userId = Some ''u1'', a_documentId = ''d1'',
                    a_assignedQuota = 1, usedPrints = 1, sessionToken = Some ''tokC''\<rparr>],
      bucket = Map.empty, outputPdfQueue = [], mergePdfQueue = [], fresh = 0,
      AWS_S3_BUCKET = Some ''bkt'', urlBase = ''https://cdn''\<rparr>"

text \<open>
  The specification's scenario: \<open>job1\<close> of \<open>u1\<close> has all 3 pages rendered, is still in
  stage \<open>rendering\<close> and has no output document; \<open>job2\<close> of \<open>u1\<close> lacks a page; \<open>job3\<close>
  is stalled like \<open>job1\<close> and belongs to \<open>u2\<close>.
\<close>

definition stalledExample :: sys where
  "stalledExample =
     \<lparr>jobs = [\<lparr>j_id = ''job1'', email = ''owner@x'', assignedQuota = 5, status = ''processing'',
                stage = ''rendering'', totalPages = 3, completedPages = 3,
                pageArtifacts = [\<lparr>key = ''k2'', pageIndex = 2\<rparr>, \<lparr>key = ''k0'', pageIndex = 0\<rparr>,
                                 \<lparr>key = ''k1'', pageIndex = 1\<rparr>],
                outputDocumentId = None, userId = Some ''u1'', createdBy = ''admin''\<rparr>,
               \<lparr>j_id = ''job2'', email = ''owner@x'', assignedQuota = 5, status = ''processing'',
                stage = ''rendering'', totalPages = 3, completedPages = 2,
                pageArtifacts = [\<lparr>key = ''k4'', pageIndex = 1\<rparr>, \<lparr>key = ''k3'', pageIndex = 0\<rparr>],
                outputDocumentId = None, userId = Some ''u1'', createdBy = ''admin''\<rparr>,
               \<lparr>j_id = ''job3'', email = ''other@x'', assignedQuota = 1, status = ''processing'',
                stage = ''rendering'', totalPages = 1, completedPages = 1,
                pageArtifacts = [\<lparr>key = ''k5'', pageIndex = 0\<rparr>],
                outputDocumentId = None, userId = Some ''u2'', createdBy = ''admin''\<rparr>],
      users = [\<lparr>u_id = ''u1'', u_email = ''owner@x''\<rparr>, \<lparr>u_id = ''u2'', u_email = ''other@x''\<rparr>],
      documents = [], accesses = [], bucket = Map.empty, outputPdfQueue = [],
      mergePdfQueue = [], fresh = 0, AWS_S3_BUCKET = Some ''bkt'', urlBase = ''https://cdn''\<rparr>"

text \<open>
  A store with one job of one page, freshly created, whose owner exists; the bucket holds
  the image \<open>img/a\<close> and no object \<open>img/b\<close>. \<open>pageTask e\<close> is the job's render task,
  for the owner email \<open>e\<close>; its layout refers to both keys.
\<close>

definition renderExample :: sys where
  "renderExample =
     \<lparr>jobs = [\<lparr>j_id = ''job1'', email = ''owner@x'', assignedQuota = 5, status = ''processing'',
                stage = ''rendering'', totalPages = 1, completedPages = 0, pageArtifacts = [],
                outputDocumentId = None, userId = Some ''u1'', createdBy = ''admin''\<rparr>],
      users = [\<lparr>u_id = ''u1'', u_email = ''owner@x''\<rparr>],
      documents = [], accesses = [],
      bucket = [''img/a'' \<mapsto> \<lparr>base64 = ''QUJD'', pdfPages = None, contentType = Some ''image/jpeg''\<rparr>],
      outputPdfQueue = [], mergePdfQueue = [],
      fresh = 0, AWS_S3_BUCKET = Some ''bkt'', urlBase = ''https://cdn''\<rparr>"

definition pageTask :: "string \<Rightarrow> renderTask" where
  "pageTask em =
     \<lparr>t_email = em, t_assignedQuota = 5,
      t_pageLayout = \<lparr>items = [\<lparr>src = Some ''s3://img/a'', rest = []\<rparr>,
                                \<lparr>src = Some ''s3://img/b'', rest = []\<rparr>]\<rparr>,
      t_pageIndex = 0, t_adminUserId = ''admin'', t_jobId = ''job1''\<rparr>"


text \<open>
  A store whose job has both pages rendered, recorded in the order 1, 0, and the merge
  task of that job.
\<close>

definition mergeExample :: sys where
  "mergeExample =
     \<lparr>jobs = [\<lparr>j_id = ''job1'', email = ''owner@x'', assignedQuota = 5, status = ''processing'',
                stage = ''merging'', totalPages = 2, completedPages = 2,
                pageArtifacts = [\<lparr>key = ''generated/pages/b'', pageIndex = 1\<rparr>,
                                 \<lparr>key = ''generated/pages/a'', pageIndex = 0\<rparr>],
                outputDocumentId = None, userId = Some ''u1'', createdBy = ''admin''\<rparr>],
      users = [\<lparr>u_id = ''u1'', u_email = ''owner@x''\<rparr>],
      documents = [], accesses = [],
      bucket = [''generated/pages/a'' \<mapsto>
                  \<lparr>base64 = [], pdfPages = Some [\<lparr>items = [\<lparr>src = Some ''first'', rest = []\<rparr>]\<rparr>],
                   contentType = Some ''application/pdf''\<rparr>,
                ''generated/pages/b'' \<mapsto>
                  \<lparr>base64 = [], pdfPages = Some [\<lparr>items = [\<lparr>src = Some ''second'', rest = []\<rparr>]\<rparr>],
                   contentType = Some ''application/pdf''\<rparr>],
      outputPdfQueue = [], mergePdfQueue = [],
      fresh = 0, AWS_S3_BUCKET = Some ''bkt'', urlBase = ''https://cdn''\<rparr>"

definition mergeTaskExample :: mergeTask where
  "mergeTaskExample =
     \<lparr>m_jobId = ''job1'', m_email = ''owner@x'', m_assignedQuota = 5, m_adminUserId = ''admin''\<rparr>"

text \<open>A store with one user and no job, and the layout pages of a request body.\<close>

definition creationExample :: sys where
  "creationExample =
     \<lparr>jobs = [], users = [\<lparr>u_id = ''u1'', u_email = ''owner@x''\<rparr>], documents = [],
      accesses = [], bucket = Map.empty, outputPdfQueue = [], mergePdfQueue = [], fresh = 0,
      AWS_S3_BUCKET = Some ''bkt'', urlBase = ''https://cdn''\<rparr>"

definition layoutExample :: "jsval list" where
  "layoutExample =
     [JObj [(''items'', JArr [JObj [(''type'', JStr ''image''), (''src'', JStr ''s3://img/a'')],
                               JObj [(''type'', JStr ''text''), (''text'', JStr ''7'')]])],
      JObj [(''items'', JArr [])]]"

text \<open>
  A complete run on that store: the job is created from the layout, its two pages are
  rendered by the cluster worker (page 1 first), and the merge task is handled.
\<close>

definition scenario :: "event list" where
  "scenario =
     [AssignJob ''admin'' (Some ''Owner@X'') (Some 5) (JArr layoutExample),
      RenderDelivery_cluster
        \<lparr>t_email = ''owner@x'', t_assignedQuota = 5, t_pageLayout = \<lparr>items = []\<rparr>,
         t_pageIndex = 1, t_adminUserId = ''admin'', t_jobId = ''0''\<rparr>,
      RenderDelivery_cluster
        \<lparr>t_email = ''owner@x'', t_assignedQuota = 5,
         t_pageLayout =
           \<lparr>items = [\<lparr>src = Some ''s3://img/a'', rest = [(''type'', JStr ''image'')]\<rparr>,
                     \<lparr>src = Some [], rest = [(''type'', JStr ''text''), (''text'', JStr ''7'')]\<rparr>]\<rparr>,
         t_pageIndex = 0, t_adminUserId = ''admin'', t_jobId = ''0''\<rparr>,
      MergeDelivery_cluster
        \<lparr>m_jobId = ''0'', m_email = ''owner@x'', m_assignedQuota = 5, m_adminUserId = ''admin''\<rparr>]"


section \<open>Lists, stores and strings\<close>

lemma find_map_same:
  "(\<And>x. P (f x) = P x) \<Longrightarrow> find P (map f xs) = map_option f (find P xs)"
  by (induction xs) auto

lemma find_map_key:
  "(\<And>x. k (f x) = k x) \<Longrightarrow> find (\<lambda>x. k x = i) (map f xs) = map_option f (find (\<lambda>x. k x = i) xs)"
  by (induction xs) auto

lemma find_map_upd:
  "(\<And>x. k (f x) = k x) \<Longrightarrow>
   find (\<lambda>x. k x = i') (map (\<lambda>x. if k x = i then f x else x) xs) =
     (if i = i' then map_option f (find (\<lambda>x. k x = i') xs) else find (\<lambda>x. k x = i') xs)"
  by (induction xs) auto

lemma find_append_Some: "find P xs = Some x \<Longrightarrow> find P (xs @ ys) = Some x"
  by (induction xs) (auto split: if_splits)

lemma updateJob_frame [simp]:
  "users (updateJob i f s) = users s"
  "documents (updateJob i f s) = documents s"
  "accesses (updateJob i f s) = accesses s"
  "bucket (updateJob i f s) = bucket s"
  "outputPdfQueue (updateJob i f s) = outputPdfQueue s"
  "mergePdfQueue (updateJob i f s) = mergePdfQueue s"
  "fresh (updateJob i f s) = fresh s"
  "AWS_S3_BUCKET (updateJob i f s) = AWS_S3_BUCKET s"
  "urlBase (updateJob i f s) = urlBase s"
  by (simp_all add: updateJob_def)

lemma jobs_updateJob:
  "jobs (updateJob i f s) = map (\<lambda>j. if j_id j = i then f j else j) (jobs s)"
  by (simp add: updateJob_def)

lemma findById_updateJob:
  assumes "\<And>j. j_id (f j) = j_id j"
  shows "findById (jobs (updateJob i f s)) i' =
     (if i = i' then map_option f (findById (jobs s) i') else findById (jobs s) i')"
  using find_map_upd [of j_id f i' i "jobs s"] assms
  by (simp add: findById_def updateJob_def)

lemma s3Get_updateJob [simp]: "s3Get (updateJob i f s) = s3Get s"
  by (rule ext) (simp add: s3Get_def)

lemma enqueueMerge_frame [simp]:
  "jobs (enqueueMerge d s) = jobs s"
  "users (enqueueMerge d s) = users s"
  "documents (enqueueMerge d s) = documents s"
  "accesses (enqueueMerge d s) = accesses s"
  "bucket (enqueueMerge d s) = bucket s"
  "outputPdfQueue (enqueueMerge d s) = outputPdfQueue s"
  "fresh (enqueueMerge d s) = fresh s"
  "AWS_S3_BUCKET (enqueueMerge d s) = AWS_S3_BUCKET s"
  "urlBase (enqueueMerge d s) = urlBase s"
  "mergePdfQueue (enqueueMerge d s) = mergePdfQueue s @ [(None, d)]"
  by (simp_all add: enqueueMerge_def queueAdd_def)

lemma stored_frame [simp]:
  "jobs (stored pre buf ct s) = jobs s"
  "users (stored pre buf ct s) = users s"
  "documents (stored pre buf ct s) = documents s"
  "accesses (stored pre buf ct s) = accesses s"
  "outputPdfQueue (stored pre buf ct s) = outputPdfQueue s"
  "mergePdfQueue (stored pre buf ct s) = mergePdfQueue s"
  "fresh (stored pre buf ct s) = Suc (fresh s)"
  "AWS_S3_BUCKET (stored pre buf ct s) = AWS_S3_BUCKET s"
  "urlBase (stored pre buf ct s) = urlBase s"
  by (simp_all add: stored_def)

lemma uploadToS3_cases:
  "uploadToS3 buf ct pre s =
     (if AWS_S3_BUCKET s = None then Inl BucketNotConfigured
      else Inr ((pre @ decimal (fresh s), urlBase s @ ''/'' @ pre @ decimal (fresh s)),
                stored pre buf ct s))"
  by (simp add: uploadToS3_def newId_def Let_def stored_def)

lemma j_id_simps [simp]:
  "j_id (incAndPush k i j) = j_id j" "j_id (rendering j) = j_id j" "j_id (merging j) = j_id j"
  by (simp_all add: incAndPush_def rendering_def merging_def)

lemma j_id_simps2 [simp]:
  "j_id (renderingFor u j) = j_id j" "j_id (failing j) = j_id j"
  by (simp_all add: renderingFor_def failing_def)

lemma ex_mergeTask [simp]: "\<exists>t :: mergeTask. m_jobId t = x"
  by (rule exI [of _ "\<lparr>m_jobId = x, m_email = [], m_assignedQuota = 0, m_adminUserId = []\<rparr>"]) simp

lemma createDocument_jobs [simp]: "jobs (snd (createDocument k url p a m s)) = jobs s"
  by (simp add: createDocument_def newId_def Let_def)

lemma upsertAccess_jobs [simp]: "jobs (snd (upsertAccess u d f s)) = jobs s"
  by (simp add: upsertAccess_def newId_def Let_def split: option.splits)

lemma ensureSessionToken_jobs [simp]: "jobs (ensureSessionToken a s) = jobs s"
  by (simp add: ensureSessionToken_def newId_def Let_def split: option.splits)

lemma digitVal_digitChar: "d < 10 \<Longrightarrow> digitVal (digitChar d) = d"
proof -
  assume "d < 10"
  then have "d \<in> {0, 1, 2, 3, 4, 5, 6, 7, 8, 9}"
    by auto
  then show ?thesis
    by (auto simp: digitChar_def digitVal_def)
qed

lemma fromDecimal_decimal: "fromDecimal (decimal n) = n"
proof (induction n rule: decimal.induct)
  case (1 n)
  show ?case
  proof (cases "n < 10")
    case True
    then show ?thesis
      by (simp add: decimal.simps [of n] fromDecimal_def digitVal_digitChar)
  next
    case False
    then have "fromDecimal (decimal (n div 10)) = n div 10"
      using 1 by simp
    then show ?thesis
      using False
      by (simp add: decimal.simps [of n] fromDecimal_def digitVal_digitChar)
  qed
qed

lemma decimal_inj: "decimal m = decimal n \<Longrightarrow> m = n"
  by (metis fromDecimal_decimal)

lemma pageTaskKey_inj: "pageTaskKey b m = pageTaskKey b n \<Longrightarrow> m = n"
  by (simp add: pageTaskKey_def decimal_inj)

lemma dec012:
  "decimal 0 = ''0''" "decimal (Suc 0) = ''1''" "decimal (Suc (Suc 0)) = ''2''"
  "decimal (Suc (Suc (Suc 0))) = ''3''"
  by (simp_all add: decimal.simps digitChar_def)

lemma lower_Owner: "toLowerCase ''Owner@X'' = ''owner@x''"
  by code_simp

lemma mapThrowing_length: "mapThrowing f xs = Inr ys \<Longrightarrow> length ys = length xs"
  by (induction xs arbitrary: ys) (auto split: sum.splits)

lemma fst_enumerate: "map fst (enumerate n xs) = [n..<n + length xs]"
  by (simp add: enumerate_eq_zip)

section \<open>Properties of the merge order\<close>









section \<open>Properties of the asset resolver\<close>

text \<open>
  The keys are fetched once each: \<open>keysToFetch\<close> has no duplicates and holds exactly the
  keys the items refer to. A key is in the cache exactly when its fetch succeeded.
\<close>

lemma setAdd_distinct: "distinct ks \<Longrightarrow> distinct (setAdd ks k)"
  by (simp add: setAdd_def)

lemma foldl_keys_distinct:
  "distinct ks \<Longrightarrow>
   distinct (foldl (\<lambda>ks it. case s3KeyOf it of None \<Rightarrow> ks | Some k \<Rightarrow> setAdd ks k) ks its)"
  by (induction its arbitrary: ks) (auto simp: setAdd_distinct split: option.splits)

lemma keysToFetch_distinct: "distinct (keysToFetch layoutPages)"
  by (simp add: keysToFetch_def foldl_keys_distinct)

lemma foldl_keys_set:
  "set (foldl (\<lambda>ks it. case s3KeyOf it of None \<Rightarrow> ks | Some k \<Rightarrow> setAdd ks k) ks its) =
     set ks \<union> {k. \<exists>it \<in> set its. s3KeyOf it = Some k}"
  by (induction its arbitrary: ks) (auto simp: setAdd_def split: option.splits)

lemma keysToFetch_set:
  "set (keysToFetch layoutPages) =
     {k. \<exists>p \<in> set layoutPages. \<exists>it \<in> set (items p). s3KeyOf it = Some k}"
  by (auto simp: keysToFetch_def foldl_keys_set)

lemma foldl_fetch:
  "foldl (\<lambda>cache k. case getObj k of None \<Rightarrow> cache | Some response \<Rightarrow> cache(k \<mapsto> mk response))
     cache ks k =
   (if k \<in> set ks \<and> getObj k \<noteq> None then map_option mk (getObj k) else cache k)"
  by (induction ks arbitrary: cache) (auto split: option.splits)

lemma fetchAll_lookup:
  "fetchAll getObj mk ks k = (if k \<in> set ks then map_option mk (getObj k) else None)"
  by (auto simp: fetchAll_def foldl_fetch)

lemma resolveItem_fetched:
  assumes "it \<in> set (items p)" and "p \<in> set layoutPages"
  shows "resolveItem (fetchAll getObj mk (keysToFetch layoutPages)) it =
     (case s3KeyOf it of
        None \<Rightarrow> it
      | Some k \<Rightarrow> (case getObj k of None \<Rightarrow> it | Some r \<Rightarrow> it\<lparr>src := Some (mk r)\<rparr>))"
proof (cases "s3KeyOf it")
  case None
  then show ?thesis by (simp add: resolveItem_def)
next
  case (Some k)
  then have "k \<in> set (keysToFetch layoutPages)"
    using assms by (auto simp: keysToFetch_set)
  then show ?thesis
    using Some by (simp add: resolveItem_def fetchAll_lookup split: option.splits)
qed

text \<open>
  The resolver of \<^verbatim>\<open>workers/pdfWorker.js\<close> never throws, and the one of the cluster
  worker throws only without a bucket name; both leave an item whose fetch failed as it
  was and resolve every other reference.
\<close>

lemma resolveS3ImagesToDataUrls_items:
  "resolveS3ImagesToDataUrls s layoutPages =
     map (\<lambda>p. p\<lparr>items := map (\<lambda>it. case s3KeyOf it of
                None \<Rightarrow> it
              | Some k \<Rightarrow> (case s3Get s k of None \<Rightarrow> it | Some r \<Rightarrow> it\<lparr>src := Some (dataUrl r)\<rparr>))
            (items p)\<rparr>) layoutPages"
  unfolding resolveS3ImagesToDataUrls_def Let_def
  by (intro map_cong refl) (simp add: resolveItem_fetched cong: map_cong)

lemma resolveS3ImagesToDataUrls_cluster_items:
  "AWS_S3_BUCKET s \<noteq> None \<Longrightarrow>
   resolveS3ImagesToDataUrls_cluster s layoutPages =
     Inr (map (\<lambda>p. p\<lparr>items := map (\<lambda>it. case s3KeyOf it of
                None \<Rightarrow> it
              | Some k \<Rightarrow> (case s3Get s k of None \<Rightarrow> it | Some r \<Rightarrow> it\<lparr>src := Some (dataUrl r)\<rparr>))
            (items p)\<rparr>) layoutPages)"
  unfolding resolveS3ImagesToDataUrls_cluster_def Let_def
  by (simp add: resolveItem_fetched cong: map_cong)

text \<open>
  C6. The second worker file of \<^verbatim>\<open>part_000\<close> writes \<^verbatim>\<open>src: cache.get(key)\<close> with no
  fallback: of a page that refers to \<open>img/a\<close> (stored) and \<open>img/b\<close> (not stored), the
  second item comes back with its \<open>src\<close> undefined, the reference \<open>s3://img/b\<close> is lost.
  On the same page the resolver of \<^verbatim>\<open>workers/pdfWorker.js\<close> keeps the reference.
\<close>

theorem resolve_part2_drops_failed_reference:
  "resolveS3ImagesToDataUrls_part2 renderExample
      [\<lparr>items = [\<lparr>src = Some ''s3://img/a'', rest = []\<rparr>, \<lparr>src = Some ''s3://img/b'', rest = []\<rparr>]\<rparr>] =
   Inr [\<lparr>items = [\<lparr>src = Some ''data:image/png;base64,QUJD'', rest = []\<rparr>,
                    \<lparr>src = None, rest = []\<rparr>]\<rparr>]
   \<and> resolveS3ImagesToDataUrls renderExample
      [\<lparr>items = [\<lparr>src = Some ''s3://img/a'', rest = []\<rparr>, \<lparr>src = Some ''s3://img/b'', rest = []\<rparr>]\<rparr>] =
   [\<lparr>items = [\<lparr>src = Some ''data:image/jpeg;base64,QUJD'', rest = []\<rparr>,
                \<lparr>src = Some ''s3://img/b'', rest = []\<rparr>]\<rparr>]"
  by (simp add: resolveS3ImagesToDataUrls_part2_def resolveS3ImagesToDataUrls_def keysToFetch_def
      s3KeyOf_def startsWith_def setAdd_def renderExample_def fetchAll_def s3Get_def
      dataUrl_part2_def dataUrl_def resolveItem_part2_def resolveItem_def)

section \<open>Properties of the reconciler\<close>

lemma healJob_jobs:
  "jobs (healJob s job) =
     (if needsMerge job then map (\<lambda>j. if j_id j = j_id job then healed j else j) (jobs s)
      else jobs s)"
  by (simp add: healJob_def updateJob_def enqueueMerge_def healed_def)

lemma healJob_queue:
  "mergePdfQueue (healJob s job) =
     (if needsMerge job then mergePdfQueue s @ [(None, mergeTaskOf job)] else mergePdfQueue s)"
  by (simp add: healJob_def updateJob_def enqueueMerge_def queueAdd_def mergeTaskOf_def)

lemma healJob_frame:
  "users (healJob s job) = users s \<and> documents (healJob s job) = documents s
   \<and> accesses (healJob s job) = accesses s \<and> bucket (healJob s job) = bucket s
   \<and> outputPdfQueue (healJob s job) = outputPdfQueue s"
  by (simp add: healJob_def updateJob_def enqueueMerge_def)

lemma foldl_healJob_queue:
  "mergePdfQueue (foldl healJob s xs) =
     mergePdfQueue s @ map (\<lambda>j. (None, mergeTaskOf j)) (filter needsMerge xs)"
  by (induction xs arbitrary: s) (simp_all add: healJob_queue)

lemma foldl_healJob_jobs:
  "jobs (foldl healJob s xs) =
     map (\<lambda>j. if j_id j \<in> j_id ` {x \<in> set xs. needsMerge x} then healed j else j) (jobs s)"
proof (induction xs arbitrary: s)
  case Nil
  then show ?case by simp
next
  case (Cons x xs)
  have idem: "healed (healed j) = healed j" for j
    by (simp add: healed_def)
  have id: "j_id (healed j) = j_id j" for j
    by (simp add: healed_def)
  show ?case
    by (auto simp: Cons healJob_jobs idem id)
qed

lemma foldl_healJob_frame:
  "users (foldl healJob s xs) = users s \<and> documents (foldl healJob s xs) = documents s
   \<and> accesses (foldl healJob s xs) = accesses s \<and> bucket (foldl healJob s xs) = bucket s
   \<and> outputPdfQueue (foldl healJob s xs) = outputPdfQueue s"
  by (induction xs arbitrary: s) (simp_all add: healJob_frame)

text \<open>
  C8. One pass of the reconciler for the user \<open>u\<close> (the job ids of the collection being
  distinct): the jobs of \<open>u\<close> that satisfy the condition, and no others, are advanced to
  stage \<open>merging\<close> (with status \<open>processing\<close>); every other job is left as it was; the
  merge queue grows by exactly one merge task for each advanced job; users, documents,
  grants, the bucket and the render queue are untouched.
\<close>

theorem selfHeal_exactly_stalled_jobs:
  assumes "distinct (map j_id (jobs s))"
  shows "jobs (selfHeal u s) =
           map (\<lambda>j. if userId j = Some u \<and> needsMerge j
                     then j\<lparr>stage := ''merging'', status := ''processing''\<rparr> else j) (jobs s)
       \<and> mergePdfQueue (selfHeal u s) =
           mergePdfQueue s @
           map (\<lambda>j. (None, \<lparr>m_jobId = j_id j, m_email = email j,
                             m_assignedQuota = assignedQuota j, m_adminUserId = createdBy j\<rparr>))
             (filter (\<lambda>j. userId j = Some u \<and> needsMerge j) (jobs s))
       \<and> users (selfHeal u s) = users s \<and> documents (selfHeal u s) = documents s
       \<and> accesses (selfHeal u s) = accesses s \<and> bucket (selfHeal u s) = bucket s
       \<and> outputPdfQueue (selfHeal u s) = outputPdfQueue s"
proof -
  let ?xs = "filter (\<lambda>job. userId job = Some u) (jobs s)"
  have inj: "inj_on j_id (set (jobs s))"
    using assms by (simp add: distinct_map)
  have mem: "j_id j \<in> j_id ` {x \<in> set ?xs. needsMerge x} \<longleftrightarrow> userId j = Some u \<and> needsMerge j"
    if "j \<in> set (jobs s)" for j
    using that inj by (auto dest: inj_onD)
  have "jobs (selfHeal u s) =
      map (\<lambda>j. if j_id j \<in> j_id ` {x \<in> set ?xs. needsMerge x} then healed j else j) (jobs s)"
    by (simp add: selfHeal_def foldl_healJob_jobs)
  also have "\<dots> = map (\<lambda>j. if userId j = Some u \<and> needsMerge j then healed j else j) (jobs s)"
    using mem by (intro map_cong) auto
  finally have j: "jobs (selfHeal u s) =
      map (\<lambda>j. if userId j = Some u \<and> needsMerge j then healed j else j) (jobs s)" .
  have q: "mergePdfQueue (selfHeal u s) =
      mergePdfQueue s @ map (\<lambda>j. (None, mergeTaskOf j)) (filter needsMerge ?xs)"
    by (simp add: selfHeal_def foldl_healJob_queue)
  have "filter needsMerge ?xs = filter (\<lambda>j. userId j = Some u \<and> needsMerge j) (jobs s)"
    by (simp add: conj_commute)
  with j q show ?thesis
    by (simp add: healed_def mergeTaskOf_def selfHeal_def foldl_healJob_frame)
qed

text \<open>
  On the scenario, the listing of \<open>u1\<close> advances \<open>job1\<close> alone and adds the single merge
  task of \<open>job1\<close>.
\<close>

theorem selfHeal_exactly_stalled_jobs_witness:
  "map stage (jobs (selfHeal ''u1'' stalledExample)) = [''merging'', ''rendering'', ''rendering'']
   \<and> map (m_jobId \<circ> snd) (mergePdfQueue (selfHeal ''u1'' stalledExample)) = [''job1'']"
proof -
  have d: "distinct (map j_id (jobs stalledExample))"
    by (simp add: stalledExample_def)
  note t = selfHeal_exactly_stalled_jobs [OF d, of "''u1''"]
  have n: "map needsMerge (jobs stalledExample) = [True, False, True]"
    by (simp add: stalledExample_def needsMerge_def)
  have j: "jobs (selfHeal ''u1'' stalledExample) =
           map (\<lambda>j. if userId j = Some ''u1'' \<and> needsMerge j
                     then j\<lparr>stage := ''merging'', status := ''processing''\<rparr> else j)
             (jobs stalledExample)"
    by (rule t [THEN conjunct1])
  have q: "mergePdfQueue (selfHeal ''u1'' stalledExample) =
           mergePdfQueue stalledExample @
           map (\<lambda>j. (None, \<lparr>m_jobId = j_id j, m_email = email j,
                             m_assignedQuota = assignedQuota j, m_adminUserId = createdBy j\<rparr>))
             (filter (\<lambda>j. userId j = Some ''u1'' \<and> needsMerge j) (jobs stalledExample))"
    by (rule t [THEN conjunct2, THEN conjunct1])
  show ?thesis
    unfolding j q using n by (simp add: stalledExample_def)
qed

section \<open>Properties of the access routes\<close>

lemma securePrint_limit:
  assumes "tok \<noteq> []" and "find (\<lambda>a. sessionToken a = Some tok) (accesses s) = Some access"
    and "a_assignedQuota access - usedPrints access \<le> 0"
  shows "securePrint u (Some tok) s = (Message 400 ''Print limit exceeded'', s)"
  using assms by (simp add: securePrint_def Let_def)

lemma securePrint_accesses:
  assumes "tok \<noteq> []" and "find (\<lambda>a. sessionToken a = Some tok) (accesses s) = Some access"
    and "a_assignedQuota access - usedPrints access > 0"
  shows "accesses (snd (securePrint u (Some tok) s)) =
     map (\<lambda>b. if a_id b = a_id access then b\<lparr>usedPrints := usedPrints access + 1\<rparr> else b)
       (accesses s)"
  using assms by (simp add: securePrint_def Let_def split: option.splits)

lemma securePrint_grant_after:
  assumes "tok \<noteq> []" and "find (\<lambda>a. sessionToken a = Some tok) (accesses s) = Some access"
    and "a_assignedQuota access - usedPrints access > 0"
  shows "find (\<lambda>a. sessionToken a = Some tok) (accesses (snd (securePrint u (Some tok) s))) =
     Some (access\<lparr>usedPrints := usedPrints access + 1\<rparr>)"
proof -
  let ?f = "\<lambda>b. if a_id b = a_id access then b\<lparr>usedPrints := usedPrints access + 1\<rparr> else b"
  have "find (\<lambda>a. sessionToken a = Some tok) (map ?f (accesses s)) =
      map_option ?f (find (\<lambda>a. sessionToken a = Some tok) (accesses s))"
    by (rule find_map_same) simp
  then show ?thesis
    using assms by (simp add: securePrint_accesses)
qed

lemma securePrint_dangling:
  assumes "tok \<noteq> []" and "find (\<lambda>a. sessionToken a = Some tok) (accesses s) = Some access"
    and "a_assignedQuota access - usedPrints access > 0"
    and "find (\<lambda>d. d_id d = a_documentId access) (documents s) = None"
  shows "fst (securePrint u (Some tok) s) = Message 404 ''Document not found''"
  using assms by (simp add: securePrint_def Let_def)

lemma securePrint_url:
  assumes "tok \<noteq> []" and "find (\<lambda>a. sessionToken a = Some tok) (accesses s) = Some access"
    and "a_assignedQuota access - usedPrints access > 0"
    and "find (\<lambda>d. d_id d = a_documentId access) (documents s) = Some d"
    and "AWS_S3_BUCKET s = Some b"
  shows "fst (securePrint u (Some tok) s) =
     PrintUrl (getSignedUrl b (fileKey d)) (a_assignedQuota access - (usedPrints access + 1))
       (a_assignedQuota access)"
  using assms by (simp add: securePrint_def Let_def)

lemma secureRender_forbidden:
  assumes "tok \<noteq> []" and "find (\<lambda>a. sessionToken a = Some tok) (accesses s) = Some access"
    and "a_userId access = Some owner" and "owner \<noteq> u"
  shows "secureRender u (Some tok) s = (Message 403 ''Not authorized for this document'', s)"
  using assms by (simp add: secureRender_def)

text \<open>
  C9. \<^verbatim>\<open>POST /secure-print\<close> never looks at the requester: for a session token that
  matches a grant \<open>access\<close> with prints left, the answer and the new state are the same
  for every authenticated user \<open>u\<close> (the grant's owner or not), the grant's \<open>usedPrints\<close>
  is incremented, and (the linked document and the bucket name being there) the answer
  is the presigned URL of the document. \<^verbatim>\<open>POST /secure-render\<close> with the same token
  answers 403 to a user who is not the grant's owner.
\<close>

theorem securePrint_ignores_requester:
  assumes "tok \<noteq> []"
    and "find (\<lambda>a. sessionToken a = Some tok) (accesses s) = Some access"
    and "a_assignedQuota access - usedPrints access > 0"
  shows "securePrint u (Some tok) s = securePrint u' (Some tok) s
       \<and> find (\<lambda>a. sessionToken a = Some tok) (accesses (snd (securePrint u (Some tok) s)))
           = Some (access\<lparr>usedPrints := usedPrints access + 1\<rparr>)
       \<and> (\<forall>d b. find (\<lambda>d. d_id d = a_documentId access) (documents s) = Some d \<and>
                  AWS_S3_BUCKET s = Some b \<longrightarrow>
             fst (securePrint u (Some tok) s) =
               PrintUrl (getSignedUrl b (fileKey d))
                 (a_assignedQuota access - (usedPrints access + 1)) (a_assignedQuota access))
       \<and> (\<forall>owner. a_userId access = Some owner \<and> owner \<noteq> u \<longrightarrow>
             secureRender u (Some tok) s = (Message 403 ''Not authorized for this document'', s))"
proof -
  have "securePrint u (Some tok) s = securePrint u' (Some tok) s"
    by (simp add: securePrint_def)
  then show ?thesis
    using securePrint_grant_after [OF assms] securePrint_url [OF assms]
      secureRender_forbidden [OF assms(1,2)]
    by blast
qed

text \<open>
  The user \<open>u2\<close> presents the token of a grant of \<open>u1\<close>: \<^verbatim>\<open>/secure-print\<close> hands out the
  URL and takes one of \<open>u1\<close>'s two prints, \<^verbatim>\<open>/secure-render\<close> refuses.
\<close>

theorem securePrint_ignores_requester_witness:
  "fst (securePrint ''u2'' (Some ''tokA'') printExample) =
      PrintUrl ''https://bkt.s3.amazonaws.com/generated/output/k1?X-Amz-Expires=60'' 1 2
   \<and> map usedPrints (accesses (snd (securePrint ''u2'' (Some ''tokA'') printExample))) = [1, 0, 1]
   \<and> secureRender ''u2'' (Some ''tokA'') printExample =
      (Message 403 ''Not authorized for this document'', printExample)"
proof -
  let ?a1 = "\<lparr>a_id = ''a1'', a_userId = Some ''u1'', a_documentId = ''d1'', a_assignedQuota = 2,
                    usedPrints = 0, sessionToken = Some ''tokA''\<rparr>"
  have f: "find (\<lambda>a. sessionToken a = Some ''tokA'') (accesses printExample) = Some ?a1"
    by (simp add: printExample_def)
  have r: "a_assignedQuota ?a1 - usedPrints ?a1 > 0"
    by simp
  note t = securePrint_ignores_requester [of "''tokA''" printExample ?a1 "''u2''", OF _ f r]
  have "find (\<lambda>d. d_id d = a_documentId ?a1) (documents printExample) =
      Some (hd (documents printExample)) \<and> AWS_S3_BUCKET printExample = Some ''bkt''"
    by (simp add: printExample_def)
  with t have 1: "fst (securePrint ''u2'' (Some ''tokA'') printExample) =
      PrintUrl (getSignedUrl ''bkt'' (fileKey (hd (documents printExample))))
        (a_assignedQuota ?a1 - (usedPrints ?a1 + 1)) (a_assignedQuota ?a1)"
    by blast
  from t have 2: "secureRender ''u2'' (Some ''tokA'') printExample =
      (Message 403 ''Not authorized for this document'', printExample)"
    by simp
  have 3: "map usedPrints (accesses (snd (securePrint ''u2'' (Some ''tokA'') printExample))) =
      [1, 0, 1]"
    by (simp add: securePrint_def printExample_def)
  from 1 2 3 show ?thesis
    by (simp add: getSignedUrl_def printExample_def)
qed

text \<open>
  C10. For a session token that matches a grant \<open>access\<close>: when no print is left,
  \<^verbatim>\<open>POST /secure-print\<close> answers 400 "Print limit exceeded" and changes nothing; when a
  print is left and the grant's document reference dangles, it answers 404 "Document not
  found" and the grant has nevertheless lost one print (the increment is saved before the
  document is looked at).
\<close>

theorem securePrint_quota_paths:
  assumes "tok \<noteq> []"
    and "find (\<lambda>a. sessionToken a = Some tok) (accesses s) = Some access"
  shows "(a_assignedQuota access - usedPrints access \<le> 0 \<longrightarrow>
            securePrint u (Some tok) s = (Message 400 ''Print limit exceeded'', s))
       \<and> (a_assignedQuota access - usedPrints access > 0 \<and>
          find (\<lambda>d. d_id d = a_documentId access) (documents s) = None \<longrightarrow>
            fst (securePrint u (Some tok) s) = Message 404 ''Document not found''
          \<and> find (\<lambda>a. sessionToken a = Some tok) (accesses (snd (securePrint u (Some tok) s)))
              = Some (access\<lparr>usedPrints := usedPrints access + 1\<rparr>))"
  using securePrint_limit [OF assms] securePrint_dangling [OF assms]
    securePrint_grant_after [OF assms]
  by blast

text \<open>
  The grant \<open>a3\<close> has no print left: nothing changes. The grant \<open>a2\<close> points to a
  document that is gone: the answer is 404 and its \<open>usedPrints\<close> went from 0 to 1.
\<close>

theorem securePrint_quota_paths_witness:
  "securePrint ''u1'' (Some ''tokC'') printExample =
      (Message 400 ''Print limit exceeded'', printExample)
   \<and> fst (securePrint ''u1'' (Some ''tokB'') printExample) = Message 404 ''Document not found''
   \<and> find (\<lambda>a. sessionToken a = Some ''tokB'') (accesses printExample)
       = Some \<lparr>a_id = ''a2'', a_userId = Some ''u1'', a_documentId = ''gone'',
                a_assignedQuota = 1, usedPrints = 0, sessionToken = Some ''tokB''\<rparr>
   \<and> find (\<lambda>a. sessionToken a = Some ''tokB'')
        (accesses (snd (securePrint ''u1'' (Some ''tokB'') printExample)))
       = Some \<lparr>a_id = ''a2'', a_userId = Some ''u1'', a_documentId = ''gone'',
                a_assignedQuota = 1, usedPrints = 1, sessionToken = Some ''tokB''\<rparr>"
proof -
  let ?a2 = "\<lparr>a_id = ''a2'', a_userId = Some ''u1'', a_documentId = ''gone'',
                a_assignedQuota = 1, usedPrints = 0, sessionToken = Some ''tokB''\<rparr>"
  let ?a3 = "\<lparr>a_id = ''a3'', a_userId = Some ''u1'', a_documentId = ''d1'',
                a_assignedQuota = 1, usedPrints = 1, sessionToken = Some ''tokC''\<rparr>"
  have f3: "find (\<lambda>a. sessionToken a = Some ''tokC'') (accesses printExample) = Some ?a3"
    by (simp add: printExample_def)
  have f2: "find (\<lambda>a. sessionToken a = Some ''tokB'') (accesses printExample) = Some ?a2"
    by (simp add: printExample_def)
  have gone: "find (\<lambda>d. d_id d = a_documentId ?a2) (documents printExample) = None"
    by (simp add: printExample_def)
  have "securePrint ''u1'' (Some ''tokC'') printExample =
      (Message 400 ''Print limit exceeded'', printExample)"
    using securePrint_quota_paths [of "''tokC''" printExample ?a3 "''u1''", OF _ f3] by simp
  moreover have "fst (securePrint ''u1'' (Some ''tokB'') printExample) =
        Message 404 ''Document not found''
     \<and> find (\<lambda>a. sessionToken a = Some ''tokB'')
          (accesses (snd (securePrint ''u1'' (Some ''tokB'') printExample)))
       = Some (?a2\<lparr>usedPrints := usedPrints ?a2 + 1\<rparr>)"
    using securePrint_quota_paths [of "''tokB''" printExample ?a2 "''u1''", OF _ f2] gone
    by simp
  ultimately show ?thesis
    using f2 by simp
qed

section \<open>The render workers, branch by branch\<close>

lemma resolve_single: "resolveS3ImagesToDataUrls s [p] = [resolved s p]"
  by (simp add: resolved_def resolveS3ImagesToDataUrls_def)

lemma resolve_cluster_single:
  "resolveS3ImagesToDataUrls_cluster s [p] =
     (if AWS_S3_BUCKET s = None then Inl BucketNotConfigured else Inr [resolved_cluster s p])"
  by (simp add: resolved_cluster_def resolveS3ImagesToDataUrls_cluster_def Let_def)

lemma resolve_part2_single:
  "resolveS3ImagesToDataUrls_part2 s [p] =
     (if AWS_S3_BUCKET s = None then Inl BucketNotConfigured else Inr [resolved_part2 s p])"
  by (simp add: resolved_part2_def resolveS3ImagesToDataUrls_part2_def Let_def)

text \<open>
  Each render worker written out with the states it passes through: the job is absent;
  the owner is unknown; the bucket name is missing (the upload, or the resolver before
  it, throws); the page is stored and recorded, and the merge is or is not enqueued.
\<close>

lemma renderWorker_cases:
  "renderWorker d s =
     (case findById (jobs s) (t_jobId d) of
        None \<Rightarrow> (Returned, s)
      | Some j \<Rightarrow>
          if findUser (users s) (toLowerCase (t_email d)) = None
          then (Threw UserNotFound, updateJob (t_jobId d) rendering s)
          else if AWS_S3_BUCKET s = None
          then (Threw BucketNotConfigured, updateJob (t_jobId d) rendering s)
          else
            let s3 = updateJob (t_jobId d) (incAndPush (pageKey s) (t_pageIndex d))
                  (stored ''generated/pages/''
                     (generateOutputPdfBuffer
                        [resolved (updateJob (t_jobId d) rendering s) (t_pageLayout d)])
                     ''application/pdf'' (updateJob (t_jobId d) rendering s))
            in if completedPages j + 1 = totalPages j
               then (Returned, updateJob (t_jobId d) merging (enqueueMerge (mergeTaskFor d) s3))
               else (Returned, s3))"
proof (cases "findById (jobs s) (t_jobId d)")
  case None
  then show ?thesis by (simp add: renderWorker_def)
next
  case (Some j)
  have r: "(\<lambda>j. j\<lparr>status := ''processing'', stage := ''rendering''\<rparr>) = rendering"
    by (rule ext) (simp add: rendering_def)
  have m: "(\<lambda>j. j\<lparr>stage := ''merging''\<rparr>) = merging"
    by (rule ext) (simp add: merging_def)
  have found: "findById (jobs (updateJob (t_jobId d) (incAndPush k i)
        (stored pre buf ct (updateJob (t_jobId d) rendering s)))) (t_jobId d) =
      Some (incAndPush k i (rendering j))" for k i pre buf ct
    using Some by (simp add: findById_updateJob)
  have c: "completedPages (incAndPush k i (rendering j)) = completedPages j + 1"
    "totalPages (incAndPush k i (rendering j)) = totalPages j" for k i
    by (simp_all add: incAndPush_def rendering_def)
  show ?thesis
    unfolding renderWorker_def r m
    by (simp add: Some Let_def resolve_single uploadToS3_cases found c pageKey_def mergeTaskFor_def
        split: option.splits)
qed

lemma renderWorker_cluster_cases:
  "renderWorker_cluster d s =
     (case (if t_jobId d = [] then None else findById (jobs s) (t_jobId d)) of
        None \<Rightarrow> (Returned, s)
      | Some j \<Rightarrow>
          (case findUser (users s) (toLowerCase (t_email d)) of
             None \<Rightarrow> (Threw UserNotFound, updateJob (t_jobId d) failing (updateJob (t_jobId d) rendering s))
           | Some u \<Rightarrow>
          if AWS_S3_BUCKET s = None
          then (Threw BucketNotConfigured, updateJob (t_jobId d) rendering s)
          else
            let s3 = updateJob (t_jobId d)
                  (\<lambda>j. renderingFor (u_id u) (incAndPush (pageKey s) (t_pageIndex d) j))
                  (stored ''generated/pages/''
                     (generateOutputPdfBuffer
                        [resolved_cluster (updateJob (t_jobId d) rendering s) (t_pageLayout d)])
                     ''application/pdf'' (updateJob (t_jobId d) rendering s))
            in if completedPages j + 1 \<ge> totalPages j \<and> totalPages j > 0
               then (Returned, updateJob (t_jobId d) merging (enqueueMerge (mergeTaskFor d) s3))
               else (Returned, s3)))"
proof (cases "if t_jobId d = [] then None else findById (jobs s) (t_jobId d)")
  case None
  then show ?thesis by (simp add: renderWorker_cluster_def)
next
  case (Some j)
  then have job: "findById (jobs s) (t_jobId d) = Some j"
    by (simp split: if_splits)
  have r: "(\<lambda>j. j\<lparr>status := ''processing'', stage := ''rendering''\<rparr>) = rendering"
    by (rule ext) (simp add: rendering_def)
  have m: "(\<lambda>j. j\<lparr>stage := ''merging''\<rparr>) = merging"
    by (rule ext) (simp add: merging_def)
  have f: "(\<lambda>j. j\<lparr>status := ''failed'', stage := ''failed''\<rparr>) = failing"
    by (rule ext) (simp add: failing_def)
  have g: "(\<lambda>j. (incAndPush k i j)\<lparr>status := ''processing'', stage := ''rendering'',
                                        userId := Some u\<rparr>) = (\<lambda>j. renderingFor u (incAndPush k i j))" for k i u
    by (rule ext) (simp add: renderingFor_def)
  have found: "findById (jobs (updateJob (t_jobId d) (\<lambda>j. renderingFor u (incAndPush k i j))
        (stored pre buf ct (updateJob (t_jobId d) rendering s)))) (t_jobId d) =
      Some (renderingFor u (incAndPush k i (rendering j)))" for k i pre buf ct u
    using job by (simp add: findById_updateJob)
  have c: "completedPages (renderingFor u (incAndPush k i (rendering j))) = completedPages j + 1"
    "totalPages (renderingFor u (incAndPush k i (rendering j))) = totalPages j" for k i u
    by (simp_all add: incAndPush_def rendering_def renderingFor_def)
  show ?thesis
    unfolding renderWorker_cluster_def r m f g
    using Some
    by (auto simp: Let_def resolve_cluster_single uploadToS3_cases found c pageKey_def mergeTaskFor_def
        split: option.splits)
qed

lemma renderWorker_part2_cases:
  "renderWorker_part2 d s =
     (case findById (jobs s) (t_jobId d) of
        None \<Rightarrow> (Returned, s)
      | Some j \<Rightarrow>
          if AWS_S3_BUCKET s = None
          then (Threw BucketNotConfigured, updateJob (t_jobId d) rendering s)
          else
            let s3 = updateJob (t_jobId d) (incAndPush (pageKey s) (t_pageIndex d))
                  (stored ''generated/pages/''
                     (generateOutputPdfBuffer
                        [resolved_part2 (updateJob (t_jobId d) rendering s) (t_pageLayout d)])
                     ''application/pdf'' (updateJob (t_jobId d) rendering s))
            in if completedPages j + 1 = totalPages j
               then (Returned, updateJob (t_jobId d) merging (enqueueMerge (mergeTaskFor_part2 d) s3))
               else (Returned, s3))"
proof (cases "findById (jobs s) (t_jobId d)")
  case None
  then show ?thesis by (simp add: renderWorker_part2_def)
next
  case (Some j)
  have r: "(\<lambda>j. j\<lparr>status := ''processing'', stage := ''rendering''\<rparr>) = rendering"
    by (rule ext) (simp add: rendering_def)
  have m: "(\<lambda>j. j\<lparr>stage := ''merging''\<rparr>) = merging"
    by (rule ext) (simp add: merging_def)
  have found: "findById (jobs (updateJob (t_jobId d) (incAndPush k i)
        (stored pre buf ct (updateJob (t_jobId d) rendering s)))) (t_jobId d) =
      Some (incAndPush k i (rendering j))" for k i pre buf ct
    using Some by (simp add: findById_updateJob)
  have c: "completedPages (incAndPush k i (rendering j)) = completedPages j + 1"
    "totalPages (incAndPush k i (rendering j)) = totalPages j" for k i
    by (simp_all add: incAndPush_def rendering_def)
  show ?thesis
    unfolding renderWorker_part2_def r m
    by (simp add: Some Let_def resolve_part2_single uploadToS3_cases found c pageKey_def
        mergeTaskFor_part2_def split: option.splits)
qed

text \<open>
  A task whose job is absent is dropped by all three workers, and nothing is written. The
  cluster worker marks the job failed when the owner is unknown.
\<close>

lemma renderWorker_job_absent:
  assumes "findById (jobs s) (t_jobId d) = None"
  shows "renderWorker d s = (Returned, s)" and "renderWorker_cluster d s = (Returned, s)"
    and "renderWorker_part2 d s = (Returned, s)"
  using assms
  by (simp_all add: renderWorker_cases renderWorker_cluster_cases renderWorker_part2_cases)

lemma renderWorker_cluster_owner_missing:
  assumes "t_jobId d \<noteq> []" and "findById (jobs s) (t_jobId d) = Some j"
    and "findUser (users s) (toLowerCase (t_email d)) = None"
  shows "fst (renderWorker_cluster d s) = Threw UserNotFound"
    and "findById (jobs (snd (renderWorker_cluster d s))) (t_jobId d) =
      Some (j\<lparr>status := ''failed'', stage := ''failed''\<rparr>)"
  using assms
  by (simp_all add: renderWorker_cluster_cases findById_updateJob failing_def rendering_def)

lemmas eval_defs = renderExample_def pageTask_def run_def findById_def findUser_def updateJob_def
  stored_def enqueueMerge_def queueAdd_def toLowerCase_def lowerChar_def incAndPush_def
  rendering_def merging_def renderingFor_def failing_def mergeTaskFor_def Let_def

text \<open>
  C7. The render task of \<open>job1\<close> for an email no user has: the worker of
  \<^verbatim>\<open>workers/pdfWorker.js\<close> throws and leaves the job at status \<open>processing\<close> and stage
  \<open>rendering\<close>, it does not mark it failed; the second worker file of \<^verbatim>\<open>part_000\<close> does
  not check the owner at all, it returns normally and counts the page. The cluster
  worker throws and marks the job failed, as the specification says.
\<close>

theorem renderWorker_owner_missing_not_marked_failed:
  "fst (renderWorker (pageTask ''nobody@x'') renderExample) = Threw UserNotFound
   \<and> map status (jobs (snd (renderWorker (pageTask ''nobody@x'') renderExample))) = [''processing'']
   \<and> map stage (jobs (snd (renderWorker (pageTask ''nobody@x'') renderExample))) = [''rendering'']
   \<and> fst (renderWorker_part2 (pageTask ''nobody@x'') renderExample) = Returned
   \<and> map completedPages (jobs (snd (renderWorker_part2 (pageTask ''nobody@x'') renderExample))) = [1]
   \<and> fst (renderWorker_cluster (pageTask ''nobody@x'') renderExample) = Threw UserNotFound
   \<and> map status (jobs (snd (renderWorker_cluster (pageTask ''nobody@x'') renderExample))) = [''failed'']
   \<and> map stage (jobs (snd (renderWorker_cluster (pageTask ''nobody@x'') renderExample))) = [''failed'']"
  by (simp add: renderWorker_cases renderWorker_cluster_cases renderWorker_part2_cases eval_defs)

section \<open>Properties of job creation\<close>

lemma enqueuePage_jobs [simp]: "jobs (enqueuePage em q a b s ip) = jobs s"
  by (simp add: enqueuePage_def)

lemma foldl_enqueuePage_jobs [simp]: "jobs (foldl (enqueuePage em q a b) s ips) = jobs s"
  by (induction ips arbitrary: s) simp_all

lemma enqueuePage_frame [simp]:
  "users (enqueuePage em q a b s ip) = users s"
  "documents (enqueuePage em q a b s ip) = documents s"
  "accesses (enqueuePage em q a b s ip) = accesses s"
  "bucket (enqueuePage em q a b s ip) = bucket s"
  "mergePdfQueue (enqueuePage em q a b s ip) = mergePdfQueue s"
  "fresh (enqueuePage em q a b s ip) = fresh s"
  "AWS_S3_BUCKET (enqueuePage em q a b s ip) = AWS_S3_BUCKET s"
  "urlBase (enqueuePage em q a b s ip) = urlBase s"
  by (simp_all add: enqueuePage_def)

lemma foldl_enqueuePage_frame [simp]:
  "users (foldl (enqueuePage em q a b) s ips) = users s"
  "documents (foldl (enqueuePage em q a b) s ips) = documents s"
  "accesses (foldl (enqueuePage em q a b) s ips) = accesses s"
  "bucket (foldl (enqueuePage em q a b) s ips) = bucket s"
  "mergePdfQueue (foldl (enqueuePage em q a b) s ips) = mergePdfQueue s"
  "fresh (foldl (enqueuePage em q a b) s ips) = fresh s"
  "AWS_S3_BUCKET (foldl (enqueuePage em q a b) s ips) = AWS_S3_BUCKET s"
  "urlBase (foldl (enqueuePage em q a b) s ips) = urlBase s"
  by (induction ips arbitrary: s, simp_all)+

lemma foldl_enqueuePage_queue:
  assumes "distinct (map fst ips)"
    and "\<forall>n \<in> set (map fst ips). Some (pageTaskKey b n) \<notin> fst ` set (outputPdfQueue s)"
  shows "outputPdfQueue (foldl (enqueuePage em q a b) s ips) =
     outputPdfQueue s @ map (pageTaskOf em q a b) ips"
  using assms
proof (induction ips arbitrary: s)
  case Nil
  then show ?case by simp
next
  case (Cons ip ips)
  let ?s1 = "enqueuePage em q a b s ip"
  have q1: "outputPdfQueue ?s1 = outputPdfQueue s @ [pageTaskOf em q a b ip]"
    using Cons.prems(2) by (simp add: enqueuePage_def queueAdd_def pageTaskOf_def)
  have "Some (pageTaskKey b n) \<notin> fst ` set (outputPdfQueue ?s1)" if "n \<in> set (map fst ips)" for n
  proof -
    have "fst ip \<notin> set (map fst ips)"
      using Cons.prems(1) by simp
    then have "n \<noteq> fst ip"
      using that by blast
    then have "pageTaskKey b n \<noteq> pageTaskKey b (fst ip)"
      using pageTaskKey_inj by blast
    moreover have "Some (pageTaskKey b n) \<notin> fst ` set (outputPdfQueue s)"
      using Cons.prems(2) that by auto
    ultimately show ?thesis
      by (simp add: q1 pageTaskOf_def)
  qed
  then have "\<forall>n \<in> set (map fst ips). Some (pageTaskKey b n) \<notin> fst ` set (outputPdfQueue ?s1)"
    by blast
  moreover have "distinct (map fst ips)"
    using Cons.prems(1) by simp
  ultimately have "outputPdfQueue (foldl (enqueuePage em q a b) ?s1 ips) =
      outputPdfQueue ?s1 @ map (pageTaskOf em q a b) ips"
    by (rule Cons.IH [rotated])
  then show ?case
    by (simp add: q1)
qed

lemma assignJob_rejects:
  assumes "\<not> nonEmptyArray layoutPages"
  shows "\<exists>msg. assignJob u em q layoutPages s = (Message 400 msg, s)"
  using assms
  by (auto simp: assignJob_def nonEmptyArray_def split: option.splits jsval.splits list.splits)

lemma assignJob_creates:
  assumes "em \<noteq> []" and "0 < q" and "pages \<noteq> []"
    and san: "mapThrowing sanitizePage pages = Inr sanitized"
    and usr: "findUser (users s) (toLowerCase em) = Some owner"
    and keys: "\<forall>n < length pages. Some (pageTaskKey (decimal (fresh s)) n) \<notin> fst ` set (outputPdfQueue s)"
  shows "fst (assignJob u (Some em) (Some q) (JArr pages) s) = JobCreated (decimal (fresh s))"
    and "jobs (snd (assignJob u (Some em) (Some q) (JArr pages) s)) =
      jobs s @ [\<lparr>j_id = decimal (fresh s), email = toLowerCase em, assignedQuota = q,
                 status = ''processing'', stage = ''rendering'',
                 totalPages = int (length pages), completedPages = 0, pageArtifacts = [],
                 outputDocumentId = None, userId = Some (u_id owner), createdBy = u\<rparr>]"
    and "outputPdfQueue (snd (assignJob u (Some em) (Some q) (JArr pages) s)) =
      outputPdfQueue s @
      map (pageTaskOf (toLowerCase em) q u (decimal (fresh s))) (enumerate 0 sanitized)"
proof -
  have len: "length sanitized = length pages"
    using san by (rule mapThrowing_length)
  let ?b = "decimal (fresh s)"
  let ?job = "\<lparr>j_id = ?b, email = toLowerCase em, assignedQuota = q,
                 status = ''processing'', stage = ''rendering'',
                 totalPages = int (length sanitized), completedPages = 0, pageArtifacts = [],
                 outputDocumentId = None, userId = Some (u_id owner), createdBy = u\<rparr>"
  let ?s2 = "s\<lparr>fresh := Suc (fresh s), jobs := jobs s @ [?job]\<rparr>"
  have eq: "assignJob u (Some em) (Some q) (JArr pages) s =
      (JobCreated ?b, foldl (enqueuePage (toLowerCase em) q u ?b) ?s2 (enumerate 0 sanitized))"
    using assms(1-3) san usr by (simp add: assignJob_def Let_def newId_def)
  show "fst (assignJob u (Some em) (Some q) (JArr pages) s) = JobCreated ?b"
    by (simp add: eq)
  show "jobs (snd (assignJob u (Some em) (Some q) (JArr pages) s)) =
      jobs s @ [\<lparr>j_id = decimal (fresh s), email = toLowerCase em, assignedQuota = q,
                 status = ''processing'', stage = ''rendering'',
                 totalPages = int (length pages), completedPages = 0, pageArtifacts = [],
                 outputDocumentId = None, userId = Some (u_id owner), createdBy = u\<rparr>]"
    by (simp add: eq len)
  have "outputPdfQueue (foldl (enqueuePage (toLowerCase em) q u ?b) ?s2 (enumerate 0 sanitized)) =
      outputPdfQueue ?s2 @ map (pageTaskOf (toLowerCase em) q u ?b) (enumerate 0 sanitized)"
  proof (rule foldl_enqueuePage_queue)
    show "distinct (map fst (enumerate 0 sanitized))"
      by (simp add: fst_enumerate)
    show "\<forall>n \<in> set (map fst (enumerate 0 sanitized)).
        Some (pageTaskKey ?b n) \<notin> fst ` set (outputPdfQueue ?s2)"
      using keys len by (simp add: fst_enumerate)
  qed
  then show "outputPdfQueue (snd (assignJob u (Some em) (Some q) (JArr pages) s)) =
      outputPdfQueue s @
      map (pageTaskOf (toLowerCase em) q u (decimal (fresh s))) (enumerate 0 sanitized)"
    by (simp add: eq)
qed

lemma assignJob_jobs:
  "jobs (snd (assignJob u em q pages s)) = jobs s \<or>
   (\<exists>j. jobs (snd (assignJob u em q pages s)) = jobs s @ [j])"
  by (simp add: assignJob_def Let_def newId_def
      split: option.splits sum.splits jsval.splits prod.splits)

text \<open>
  C4. \<^verbatim>\<open>POST /assign-job\<close> answers 400 and changes nothing when \<^verbatim>\<open>layoutPages\<close> is not
  a non-empty array. When it is one, and the request passes the route's other checks (the
  email is given, the quota is positive, the pages sanitize without a throw, the owner
  exists) and the new job's task keys are not yet in the render queue, the route answers
  with the new job id, appends exactly one job record (\<open>totalPages\<close> the number of
  pages, \<open>completedPages = 0\<close>, no artifacts, status \<open>processing\<close>, stage \<open>rendering\<close>),
  and appends to the render queue one task per page index \<open>k\<close>, in order, under the
  custom id \<^verbatim>\<open>{jobId}:page:{k}\<close>.
\<close>

theorem assignJob_creates_job_and_tasks:
  "(\<not> nonEmptyArray layoutPages \<longrightarrow>
      (\<exists>msg. assignJob u em q layoutPages s = (Message 400 msg, s)))
   \<and> (e \<noteq> [] \<and> 0 < n \<and> pages \<noteq> [] \<and> mapThrowing sanitizePage pages = Inr sanitized \<and>
      findUser (users s) (toLowerCase e) = Some owner \<and>
      (\<forall>k < length pages.
         Some (pageTaskKey (decimal (fresh s)) k) \<notin> fst ` set (outputPdfQueue s)) \<longrightarrow>
      fst (assignJob u (Some e) (Some n) (JArr pages) s) = JobCreated (decimal (fresh s))
      \<and> jobs (snd (assignJob u (Some e) (Some n) (JArr pages) s)) =
          jobs s @ [\<lparr>j_id = decimal (fresh s), email = toLowerCase e, assignedQuota = n,
                     status = ''processing'', stage = ''rendering'',
                     totalPages = int (length pages), completedPages = 0, pageArtifacts = [],
                     outputDocumentId = None, userId = Some (u_id owner), createdBy = u\<rparr>]
      \<and> length sanitized = length pages
      \<and> outputPdfQueue (snd (assignJob u (Some e) (Some n) (JArr pages) s)) =
          outputPdfQueue s @
          map (\<lambda>ip. (Some (decimal (fresh s) @ '':page:'' @ decimal (fst ip)),
                      \<lparr>t_email = toLowerCase e, t_assignedQuota = n, t_pageLayout = snd ip,
                       t_pageIndex = fst ip, t_adminUserId = u, t_jobId = decimal (fresh s)\<rparr>))
            (enumerate 0 sanitized))"
proof (intro conjI impI)
  assume "\<not> nonEmptyArray layoutPages"
  then show "\<exists>msg. assignJob u em q layoutPages s = (Message 400 msg, s)"
    by (rule assignJob_rejects)
next
  assume a: "e \<noteq> [] \<and> 0 < n \<and> pages \<noteq> [] \<and> mapThrowing sanitizePage pages = Inr sanitized \<and>
      findUser (users s) (toLowerCase e) = Some owner \<and>
      (\<forall>k < length pages.
         Some (pageTaskKey (decimal (fresh s)) k) \<notin> fst ` set (outputPdfQueue s))"
  then have 1: "e \<noteq> []" and 2: "0 < n" and 3: "pages \<noteq> []"
    and 4: "mapThrowing sanitizePage pages = Inr sanitized"
    and 5: "findUser (users s) (toLowerCase e) = Some owner"
    and 6: "\<forall>k < length pages.
         Some (pageTaskKey (decimal (fresh s)) k) \<notin> fst ` set (outputPdfQueue s)"
    by simp_all
  note c = assignJob_creates [OF 1 2 3 4 5 6, of u]
  show "fst (assignJob u (Some e) (Some n) (JArr pages) s) = JobCreated (decimal (fresh s))"
    by (rule c(1))
  show "jobs (snd (assignJob u (Some e) (Some n) (JArr pages) s)) =
          jobs s @ [\<lparr>j_id = decimal (fresh s), email = toLowerCase e, assignedQuota = n,
                     status = ''processing'', stage = ''rendering'',
                     totalPages = int (length pages), completedPages = 0, pageArtifacts = [],
                     outputDocumentId = None, userId = Some (u_id owner), createdBy = u\<rparr>]"
    by (rule c(2))
  show "length sanitized = length pages"
    using 4 by (rule mapThrowing_length)
  show "outputPdfQueue (snd (assignJob u (Some e) (Some n) (JArr pages) s)) =
          outputPdfQueue s @
          map (\<lambda>ip. (Some (decimal (fresh s) @ '':page:'' @ decimal (fst ip)),
                      \<lparr>t_email = toLowerCase e, t_assignedQuota = n, t_pageLayout = snd ip,
                       t_pageIndex = fst ip, t_adminUserId = u, t_jobId = decimal (fresh s)\<rparr>))
            (enumerate 0 sanitized)"
    using c(3) by (simp add: pageTaskOf_def pageTaskKey_def fun_eq_iff cong: map_cong)
qed

text \<open>
  An empty array and a string are rejected; a request with two pages for the owner
  \<^verbatim>\<open>Owner@X\<close> creates the job \<open>0\<close> with \<open>totalPages = 2\<close> and enqueues the tasks
  \<open>0:page:0\<close> and \<open>0:page:1\<close>.
\<close>

theorem assignJob_creates_job_and_tasks_witness:
  "(\<exists>msg. assignJob ''admin'' (Some ''Owner@X'') (Some 5) (JArr []) creationExample =
      (Message 400 msg, creationExample))
   \<and> (\<exists>msg. assignJob ''admin'' (Some ''Owner@X'') (Some 5) (JStr ''pages'') creationExample =
      (Message 400 msg, creationExample))
   \<and> fst (assignJob ''admin'' (Some ''Owner@X'') (Some 5) (JArr layoutExample) creationExample) =
      JobCreated ''0''
   \<and> jobs (snd (assignJob ''admin'' (Some ''Owner@X'') (Some 5) (JArr layoutExample)
        creationExample)) =
      [\<lparr>j_id = ''0'', email = ''owner@x'', assignedQuota = 5, status = ''processing'',
        stage = ''rendering'', totalPages = 2, completedPages = 0, pageArtifacts = [],
        outputDocumentId = None, userId = Some ''u1'', createdBy = ''admin''\<rparr>]
   \<and> map fst (outputPdfQueue (snd (assignJob ''admin'' (Some ''Owner@X'') (Some 5)
        (JArr layoutExample) creationExample))) = [Some ''0:page:0'', Some ''0:page:1'']
   \<and> map (t_pageIndex \<circ> snd) (outputPdfQueue (snd (assignJob ''admin'' (Some ''Owner@X'')
        (Some 5) (JArr layoutExample) creationExample))) = [0, 1]"
proof -
  let ?san = "[\<lparr>items = [\<lparr>src = Some ''s3://img/a'', rest = [(''type'', JStr ''image'')]\<rparr>,
                          \<lparr>src = Some [], rest = [(''type'', JStr ''text''), (''text'', JStr ''7'')]\<rparr>]\<rparr>,
               \<lparr>items = []\<rparr>]"
  have r1: "\<not> nonEmptyArray (JArr [])" and r2: "\<not> nonEmptyArray (JStr ''pages'')"
    by (simp_all add: nonEmptyArray_def)
  have san: "mapThrowing sanitizePage layoutExample = Inr ?san"
    by (simp add: layoutExample_def sanitizePage_def sanitizeItem_def)
  have usr: "findUser (users creationExample) (toLowerCase ''Owner@X'') =
      Some \<lparr>u_id = ''u1'', u_email = ''owner@x''\<rparr>"
    by (simp add: lower_Owner findUser_def creationExample_def)
  have keys: "\<forall>k < length layoutExample.
      Some (pageTaskKey (decimal (fresh creationExample)) k) \<notin>
        fst ` set (outputPdfQueue creationExample)"
    by (simp add: creationExample_def)
  have pre: "''Owner@X'' \<noteq> [] \<and> (0::int) < 5 \<and> layoutExample \<noteq> [] \<and>
      mapThrowing sanitizePage layoutExample = Inr ?san \<and>
      findUser (users creationExample) (toLowerCase ''Owner@X'') =
        Some \<lparr>u_id = ''u1'', u_email = ''owner@x''\<rparr> \<and>
      (\<forall>k < length layoutExample.
         Some (pageTaskKey (decimal (fresh creationExample)) k) \<notin>
           fst ` set (outputPdfQueue creationExample))"
    using san usr keys by (simp add: layoutExample_def)
  note rej1 = assignJob_creates_job_and_tasks [THEN conjunct1, rule_format, OF r1,
      of "''admin''" "Some ''Owner@X''" "Some 5" creationExample]
  note rej2 = assignJob_creates_job_and_tasks [THEN conjunct1, rule_format, OF r2,
      of "''admin''" "Some ''Owner@X''" "Some 5" creationExample]
  note ok = assignJob_creates_job_and_tasks [THEN conjunct2, rule_format, OF pre, of "''admin''"]
  have f: "fresh creationExample = 0" "jobs creationExample = []"
    "outputPdfQueue creationExample = []"
    by (simp_all add: creationExample_def)
  have en: "enumerate 0 ?san = [(0, ?san ! 0), (Suc 0, ?san ! 1)]"
    by simp
  show ?thesis
    using rej1 rej2 ok
    by (simp add: f lower_Owner dec012 layoutExample_def)
qed

section \<open>Growth of completedPages\<close>

lemma grows_simps [simp]:
  "grows 0 j (rendering j)" "grows 0 j (merging j)" "grows 0 j (failing j)"
  "grows 0 j (renderingFor u j)" "grows 1 j (incAndPush k i j)" "grows 0 j j"
  by (simp_all add: grows_def rendering_def merging_def failing_def renderingFor_def incAndPush_def)

lemma grows_refl [simp]: "0 \<le> n \<Longrightarrow> grows n j j"
  by (simp add: grows_def)

lemma grows_trans: "grows m a b \<Longrightarrow> grows n b c \<Longrightarrow> grows (m + n) a c"
  by (auto simp: grows_def)

lemma grows_mono: "grows m a b \<Longrightarrow> m \<le> n \<Longrightarrow> grows n a b"
  by (auto simp: grows_def)

lemma grows_fields [simp]:
  "grows n j (rendering j') = grows n j j'" "grows n j (merging j') = grows n j j'"
  "grows n j (failing j') = grows n j j'" "grows n j (renderingFor u j') = grows n j j'"
  by (simp_all add: grows_def rendering_def merging_def failing_def renderingFor_def)

lemma grows_inc: "grows 1 j (incAndPush k i j)" "grows 1 j (incAndPush k i (rendering j))"
  by (simp_all add: grows_def rendering_def incAndPush_def)

lemma keeps_renderWorker:
  "keeps (if t_jobId d = i then 1 else 0) i s (snd (renderWorker d s))"
  by (cases "findById (jobs s) i")
    (auto simp: keeps_def renderWorker_cases Let_def findById_updateJob grows_inc
      split: option.splits)

lemma keeps_renderWorker_cluster:
  "keeps (if t_jobId d = i then 1 else 0) i s (snd (renderWorker_cluster d s))"
  by (cases "findById (jobs s) i")
    (auto simp: keeps_def renderWorker_cluster_cases Let_def findById_updateJob grows_inc
      split: option.splits)

lemma keeps_renderWorker_part2:
  "keeps (if t_jobId d = i then 1 else 0) i s (snd (renderWorker_part2 d s))"
  by (cases "findById (jobs s) i")
    (auto simp: keeps_def renderWorker_part2_cases Let_def findById_updateJob grows_inc
      split: option.splits)

lemma keeps_mergeWorker: "keeps 0 i s (snd (mergeWorker d s))"
  by (cases "findById (jobs s) i")
    (auto simp: keeps_def mergeWorker_def Let_def case_prod_beta uploadToS3_cases
      findById_updateJob grows_def split: option.splits sum.splits)

lemma keeps_mergeWorker_cluster: "keeps 0 i s (snd (mergeWorker_cluster d s))"
  by (cases "findById (jobs s) i")
    (auto simp: keeps_def mergeWorker_cluster_def Let_def case_prod_beta uploadToS3_cases
      findById_updateJob grows_def split: option.splits sum.splits)

lemma keeps_mergeWorker_part2: "keeps 0 i s (snd (mergeWorker_part2 d s))"
  by (cases "findById (jobs s) i")
    (auto simp: keeps_def mergeWorker_part2_def Let_def case_prod_beta uploadToS3_cases
      findById_updateJob grows_def split: option.splits sum.splits)

lemma keeps_selfHeal: "keeps 0 i s (selfHeal u s)"
proof (cases "findById (jobs s) i")
  case None
  then show ?thesis by (simp add: keeps_def)
next
  case (Some j)
  let ?f = "\<lambda>j. if j_id j \<in> j_id ` {x \<in> set (filter (\<lambda>job. userId job = Some u) (jobs s)). needsMerge x}
              then healed j else j"
  have "findById (jobs (selfHeal u s)) i = map_option ?f (findById (jobs s) i)"
    unfolding selfHeal_def foldl_healJob_jobs findById_def
    by (rule find_map_key) (simp add: healed_def)
  then show ?thesis
    using Some by (simp add: keeps_def grows_def healed_def)
qed

lemma keeps_assignJob: "keeps 0 i s (snd (assignJob u em q pages s))"
proof (cases "findById (jobs s) i")
  case None
  then show ?thesis by (simp add: keeps_def)
next
  case (Some j)
  then have "findById (jobs s @ ys) i = Some j" for ys
    by (simp add: findById_def find_append_Some)
  then show ?thesis
    using Some assignJob_jobs [of u em q pages s]
    by (auto simp: keeps_def)
qed

lemma securePrint_jobs [simp]: "jobs (snd (securePrint u tok s)) = jobs s"
  by (simp add: securePrint_def Let_def split: option.splits)

lemma keeps_securePrint: "keeps 0 i s (snd (securePrint u tok s))"
  by (simp add: keeps_def split: option.splits)

lemma keeps_handle: "keeps (if renderOf i e then 1 else 0) i s (handle e s)"
  by (cases e)
    (simp_all add: keeps_renderWorker keeps_renderWorker_cluster keeps_renderWorker_part2
      keeps_mergeWorker keeps_mergeWorker_cluster keeps_mergeWorker_part2 keeps_selfHeal
      keeps_assignJob keeps_securePrint)

lemma keeps_trans: "keeps m i s s' \<Longrightarrow> keeps n i s' s'' \<Longrightarrow> keeps (m + n) i s s''"
  by (auto simp: keeps_def grows_def split: option.splits)

lemma keeps_run: "keeps (int (renderDeliveries i es)) i s (run es s)"
proof (induction es arbitrary: s)
  case Nil
  show ?case by (simp add: run_def renderDeliveries_def keeps_def split: option.splits)
next
  case (Cons e es)
  have "keeps ((if renderOf i e then 1 else 0) + int (renderDeliveries i es)) i s (run es (handle e s))"
    using keeps_handle Cons by (rule keeps_trans)
  then show ?case
    by (auto simp: run_def renderDeliveries_def)
qed

text \<open>
  C3, as the code has it. Along every execution (any deliveries to any of the worker
  files, redeliveries included, listings, job creations, prints), a job stays in the
  collection, its \<open>totalPages\<close> never changes, its \<open>completedPages\<close> never decreases
  (so it stays at or above the 0 a job is created with), and it rises by at most the
  number of render deliveries handled for the job. So \<open>completedPages \<le> totalPages\<close>
  holds as long as no more render deliveries than pages have been handled for the job.
\<close>

theorem completedPages_bounded_by_deliveries:
  assumes "findById (jobs s) i = Some j"
  shows "\<exists>j'. findById (jobs (run es s)) i = Some j' \<and> totalPages j' = totalPages j
           \<and> completedPages j \<le> completedPages j'
           \<and> completedPages j' \<le> completedPages j + int (renderDeliveries i es)"
  using keeps_run [of i es s] assms
  by (auto simp: keeps_def grows_def split: option.splits)

text \<open>
  The one-page job after one render delivery, a listing and a merge delivery.
\<close>

theorem completedPages_bounded_by_deliveries_witness:
  "\<exists>j'. findById (jobs (run [RenderDelivery (pageTask ''owner@x''), ListAssigned ''u1'',
                                 MergeDelivery \<lparr>m_jobId = ''job1'', m_email = ''owner@x'',
                                   m_assignedQuota = 5, m_adminUserId = ''admin''\<rparr>]
                               renderExample)) ''job1'' = Some j'
     \<and> totalPages j' = 1 \<and> 0 \<le> completedPages j' \<and> completedPages j' \<le> 1"
proof -
  let ?j = "\<lparr>j_id = ''job1'', email = ''owner@x'', assignedQuota = 5, status = ''processing'',
                stage = ''rendering'', totalPages = 1, completedPages = 0, pageArtifacts = [],
                outputDocumentId = None, userId = Some ''u1'', createdBy = ''admin''\<rparr>"
  let ?es = "[RenderDelivery (pageTask ''owner@x''), ListAssigned ''u1'',
              MergeDelivery \<lparr>m_jobId = ''job1'', m_email = ''owner@x'',
                m_assignedQuota = 5, m_adminUserId = ''admin''\<rparr>]"
  have f: "findById (jobs renderExample) ''job1'' = Some ?j"
    by (simp add: findById_def renderExample_def)
  have n: "renderDeliveries ''job1'' ?es = 1"
    by (simp add: renderDeliveries_def pageTask_def)
  from completedPages_bounded_by_deliveries [OF f, of ?es]
  show ?thesis
    unfolding n by auto
qed

text \<open>
  The claim as stated fails: the update \<^verbatim>\<open>$inc: { completedPages: 1 }\<close> is
  unconditional in every worker file, so the render task of the one-page job, delivered
  a second time after its first execution succeeded, leaves \<open>completedPages = 2\<close> with
  \<open>totalPages = 1\<close>.
\<close>

theorem completedPages_exceeds_totalPages:
  "map completedPages (jobs (run [RenderDelivery (pageTask ''owner@x''), RenderDelivery (pageTask ''owner@x'')] renderExample)) = [2]
   \<and> map totalPages (jobs (run [RenderDelivery (pageTask ''owner@x''), RenderDelivery (pageTask ''owner@x'')] renderExample)) = [1]
   \<and> map completedPages (jobs (run [RenderDelivery_cluster (pageTask ''owner@x''), RenderDelivery_cluster (pageTask ''owner@x'')] renderExample)) = [2]
   \<and> map totalPages (jobs (run [RenderDelivery_cluster (pageTask ''owner@x''), RenderDelivery_cluster (pageTask ''owner@x'')] renderExample)) = [1]"
  by (simp add: renderWorker_cases renderWorker_cluster_cases eval_defs)

section \<open>The merge task of a job\<close>







section \<open>Completion of the merge\<close>

lemma find_append_new: "\<forall>x \<in> set xs. \<not> P x \<Longrightarrow> P y \<Longrightarrow> find P (xs @ [y]) = Some y"
  by (induction xs) auto

lemma map_untouched: "\<forall>x \<in> set xs. \<not> Q x \<Longrightarrow> map (\<lambda>b. if Q b then f b else b) xs = xs"
  by (induction xs) auto

text \<open>
  The success path of the cluster merge worker, for any store: the merged file is put
  in the bucket, a document and a grant for the owner are appended, the grant carries
  the quota, no used prints and a session token, and the job ends completed.
\<close>

lemma mergeWorker_cluster_success:
  assumes job: "findById (jobs s) (m_jobId d) = Some j"
    and usr: "findUser (users s) (toLowerCase (m_email d)) = Some u"
    and env: "AWS_S3_BUCKET s = Some b"
    and pages: "mergePages (s3Get s) (pageArtifacts j) = Inr merged"
    and newDoc: "\<forall>a \<in> set (accesses s). a_documentId a \<noteq> decimal (Suc (fresh s))"
    and newAccess: "\<forall>a \<in> set (accesses s). a_id a \<noteq> decimal (Suc (Suc (fresh s)))"
  shows "fst (mergeWorker_cluster d s) = Returned"
    and "bucket (snd (mergeWorker_cluster d s)) (''generated/output/'' @ decimal (fresh s)) =
      Some \<lparr>base64 = [], pdfPages = Some merged, contentType = Some ''application/pdf''\<rparr>"
    and "documents (snd (mergeWorker_cluster d s)) =
      documents s @
      [\<lparr>d_id = decimal (Suc (fresh s)), title = ''Generated Output'',
        fileKey = ''generated/output/'' @ decimal (fresh s),
        fileUrl = urlBase s @ ''/'' @ ''generated/output/'' @ decimal (fresh s),
        totalPrints = Some 0, d_createdBy = m_adminUserId d,
        mimeType = Some ''application/pdf'', documentType = ''generated-output''\<rparr>]"
    and "accesses (snd (mergeWorker_cluster d s)) =
      accesses s @
      [\<lparr>a_id = decimal (Suc (Suc (fresh s))), a_userId = Some (u_id u),
        a_documentId = decimal (Suc (fresh s)), a_assignedQuota = m_assignedQuota d,
        usedPrints = 0, sessionToken = Some (decimal (Suc (Suc (Suc (fresh s)))))\<rparr>]"
    and "findById (jobs (snd (mergeWorker_cluster d s))) (m_jobId d) =
      Some (j\<lparr>status := ''completed'', stage := ''completed'',
              outputDocumentId := Some (decimal (Suc (fresh s))), userId := Some (u_id u)\<rparr>)"
proof -
  let ?s1 = "updateJob (m_jobId d) (\<lambda>j. j\<lparr>stage := ''merging'', status := ''processing''\<rparr>) s"
  let ?s2 = "stored ''generated/output/'' (pdfSave merged) ''application/pdf'' ?s1"
  let ?doc = "\<lparr>d_id = decimal (Suc (fresh s)), title = ''Generated Output'',
        fileKey = ''generated/output/'' @ decimal (fresh s),
        fileUrl = urlBase s @ ''/'' @ ''generated/output/'' @ decimal (fresh s),
        totalPrints = Some 0, d_createdBy = m_adminUserId d,
        mimeType = Some ''application/pdf'', documentType = ''generated-output''\<rparr>"
  let ?s3 = "?s2\<lparr>fresh := Suc (Suc (fresh s)), documents := documents s @ [?doc]\<rparr>"
  let ?acc = "\<lparr>a_id = decimal (Suc (Suc (fresh s))), a_userId = Some (u_id u),
        a_documentId = decimal (Suc (fresh s)), a_assignedQuota = m_assignedQuota d,
        usedPrints = 0, sessionToken = None\<rparr>"
  let ?s4 = "?s3\<lparr>fresh := Suc (Suc (Suc (fresh s))), accesses := accesses s @ [?acc]\<rparr>"
  let ?s5 = "?s4\<lparr>fresh := Suc (Suc (Suc (Suc (fresh s)))),
      accesses := accesses s @ [?acc\<lparr>sessionToken := Some (decimal (Suc (Suc (Suc (fresh s)))))\<rparr>]\<rparr>"
  have nf: "find (\<lambda>a. a_userId a = Some (u_id u) \<and> a_documentId a = decimal (Suc (fresh s)))
      (accesses s) = None"
    using newDoc by (simp add: find_None_iff)
  have fa: "find (\<lambda>a. a_id a = decimal (Suc (Suc (fresh s)))) (accesses s @ [?acc]) = Some ?acc"
    using newAccess by (intro find_append_new) simp_all
  have mp: "map (\<lambda>b. if a_id b = decimal (Suc (Suc (fresh s))) then b\<lparr>sessionToken := Some t\<rparr> else b)
      (accesses s) = accesses s" for t
    using newAccess by (intro map_untouched) simp
  have eq: "mergeWorker_cluster d s =
      (Returned, updateJob (m_jobId d) (\<lambda>j. j\<lparr>status := ''completed'', stage := ''completed'',
           outputDocumentId := Some (decimal (Suc (fresh s))), userId := Some (u_id u)\<rparr>) ?s5)"
    using job usr env pages
    by (simp add: mergeWorker_cluster_def Let_def uploadToS3_cases createDocument_def upsertAccess_def
        ensureSessionToken_def newId_def nf fa mp stored_def)
  show "fst (mergeWorker_cluster d s) = Returned"
    by (simp add: eq)
  show "bucket (snd (mergeWorker_cluster d s)) (''generated/output/'' @ decimal (fresh s)) =
      Some \<lparr>base64 = [], pdfPages = Some merged, contentType = Some ''application/pdf''\<rparr>"
    by (simp add: eq stored_def pdfSave_def buffer.extend_def s3object.fields_def)
  show "documents (snd (mergeWorker_cluster d s)) = documents s @ [?doc]"
    by (simp add: eq)
  show "accesses (snd (mergeWorker_cluster d s)) =
      accesses s @
      [\<lparr>a_id = decimal (Suc (Suc (fresh s))), a_userId = Some (u_id u),
        a_documentId = decimal (Suc (fresh s)), a_assignedQuota = m_assignedQuota d,
        usedPrints = 0, sessionToken = Some (decimal (Suc (Suc (Suc (fresh s)))))\<rparr>]"
    by (simp add: eq)
  show "findById (jobs (snd (mergeWorker_cluster d s))) (m_jobId d) =
      Some (j\<lparr>status := ''completed'', stage := ''completed'',
              outputDocumentId := Some (decimal (Suc (fresh s))), userId := Some (u_id u)\<rparr>)"
    using job by (simp add: eq findById_updateJob)
qed

text \<open>
  The complete run of \<open>scenario\<close>: one completed job, one merge task, one document and
  one grant with a session token.
\<close>

lemma dec456:
  "decimal (Suc (Suc (Suc (Suc 0)))) = ''4''"
  "decimal (Suc (Suc (Suc (Suc (Suc 0))))) = ''5''"
  "decimal (Suc (Suc (Suc (Suc (Suc (Suc 0)))))) = ''6''"
  by (simp_all add: decimal.simps digitChar_def)

lemma lower_owner: "toLowerCase ''owner@x'' = ''owner@x''"
  by (simp add: toLowerCase_def lowerChar_def)

lemma end_to_end:
  "map (\<lambda>j. (status j, stage j, completedPages j, totalPages j, outputDocumentId j))
       (jobs (run scenario creationExample)) =
     [(''completed'', ''completed'', 2, 2, Some ''4'')]
   \<and> map fst (outputPdfQueue (run scenario creationExample)) =
       [Some ''0:page:0'', Some ''0:page:1'']
   \<and> map (m_jobId \<circ> snd) (mergePdfQueue (run scenario creationExample)) = [''0'']
   \<and> map (\<lambda>a. (a_userId a, a_documentId a, a_assignedQuota a, usedPrints a, sessionToken a))
       (accesses (run scenario creationExample)) =
       [(Some ''u1'', ''4'', 5, 0, Some ''6'')]
   \<and> map fileKey (documents (run scenario creationExample)) = [''generated/output/3'']"
  by (simp add: scenario_def run_def assignJob_def creationExample_def layoutExample_def
      sanitizePage_def sanitizeItem_def lower_Owner newId_def enqueuePage_def queueAdd_def
      pageTaskKey_def dec012 dec456 findUser_def findById_def renderWorker_cluster_def
      resolveS3ImagesToDataUrls_cluster_def keysToFetch_def s3KeyOf_def startsWith_def
      setAdd_def fetchAll_def s3Get_def resolveItem_def uploadToS3_def
      generateOutputPdfBuffer_def updateJob_def incAndPush_def enqueueMerge_def lower_owner
      Let_def mergeWorker_cluster_def mergePages_def sortedArtifacts_def buffer.truncate_def
      buffer.extend_def s3object.fields_def pdfSave_def createDocument_def upsertAccess_def
      ensureSessionToken_def)

text \<open>
  C5. The merge of the two-page job by the worker of \<^verbatim>\<open>workers/pdfWorker.js\<close>: the job
  ends completed and the owner's grant carries the quota and \<open>usedPrints = 0\<close>, but
  the grant has no session token (the upsert is an \<^verbatim>\<open>updateOne\<close> and nothing follows
  it). The cluster worker, on the same task and store, gives the grant a token.
\<close>

theorem mergeWorker_grant_without_token:
  "fst (mergeWorker mergeTaskExample mergeExample) = Returned
   \<and> accesses (snd (mergeWorker mergeTaskExample mergeExample)) =
       [\<lparr>a_id = ''2'', a_userId = Some ''u1'', a_documentId = ''1'', a_assignedQuota = 5,
         usedPrints = 0, sessionToken = None\<rparr>]
   \<and> map status (jobs (snd (mergeWorker mergeTaskExample mergeExample))) = [''completed'']
   \<and> fst (mergeWorker_cluster mergeTaskExample mergeExample) = Returned
   \<and> accesses (snd (mergeWorker_cluster mergeTaskExample mergeExample)) =
       [\<lparr>a_id = ''2'', a_userId = Some ''u1'', a_documentId = ''1'', a_assignedQuota = 5,
         usedPrints = 0, sessionToken = Some ''3''\<rparr>]"
  by (simp add: mergeWorker_def mergeWorker_cluster_def mergeTaskExample_def mergeExample_def
      findById_def findUser_def toLowerCase_def lowerChar_def updateJob_def Let_def
      mergePages_def sortedArtifacts_def s3Get_def buffer.truncate_def pdfSave_def
      uploadToS3_def createDocument_def upsertAccess_def newId_def ensureSessionToken_def dec012)

end
